theory Spec2Isabelle
  imports Main "HOL-Library.AList"
begin

section \<open>The world the two scripts run in\<close>

text \<open>
  Both scripts are straight-line sequences of library calls with \<open>try\<close>/\<open>except\<close>
  around some of them. The embedding makes the world explicit: a file system (a map
  from path strings to nodes), exceptions as values, and the sequence of library calls
  and printed messages of a run as a list of events, in the order of execution.

  Python strings that hold non-ASCII text are lists of Unicode code points; paths,
  file names and mode names are ASCII and are plain strings.
\<close>

type_synonym path = string
type_synonym ustring = "nat list"

definition ascii :: "string \<Rightarrow> ustring" where
  "ascii s = map of_char s"

datatype exn =
    FileExistsError
  | FileNotFoundError
  | NotADirectoryError
  | IsADirectoryError
  | UnidentifiedImageError
  | PermissionError
  | OSError nat
  | LibraryError nat

text \<open>How a procedure ends: it returns, or an exception leaves it uncaught.\<close>

datatype outcome = Returned | Raised exn

subsection \<open>Images (PIL)\<close>

text \<open>
  A decoded image is its colour mode and its size \<open>(width, height)\<close>; pixel data is
  not modelled. \<open>convert\<close> and \<open>resize\<close> return a new image and leave the receiver
  as it is: \<open>img.convert(mode)\<close> changes the mode and keeps the size,
  \<open>img.resize(size, filter)\<close> changes the size to exactly \<open>size\<close> and keeps the mode.
\<close>

record image =
  im_mode :: string
  im_size :: "nat \<times> nat"

datatype resampling = NEAREST | BILINEAR | BICUBIC | LANCZOS

definition convert :: "image \<Rightarrow> string \<Rightarrow> image" where
  "convert im m = im\<lparr>im_mode := m\<rparr>"

definition resize :: "image \<Rightarrow> nat \<times> nat \<Rightarrow> resampling \<Rightarrow> image" where
  "resize im sz flt = im\<lparr>im_size := sz\<rparr>"

text \<open>The modes of Pillow whose bands include an alpha band.\<close>

definition has_alpha_channel :: "string \<Rightarrow> bool" where
  "has_alpha_channel m = (m \<in> set [''RGBA'', ''LA'', ''PA'', ''RGBa'', ''La''])"

subsection \<open>Converted models (coremltools)\<close>

text \<open>
  A loaded or traced torch module is an opaque handle. A converted model carries an
  opaque program and its metadata attributes; \<open>input_description\<close> and
  \<open>output_description\<close> are dictionaries, kept as association lists.
\<close>

type_synonym module = nat

datatype compute_unit =
  ComputeUnit_ALL | ComputeUnit_CPU_ONLY | ComputeUnit_CPU_AND_GPU | ComputeUnit_CPU_AND_NE

record tensor_type =
  tt_name :: string
  tt_shape :: "nat list option"
  tt_dtype :: "string option"

record conversion =
  conv_inputs :: "tensor_type list"
  conv_outputs :: "tensor_type list"
  conv_convert_to :: string
  conv_compute_units :: compute_unit

record mlmodel =
  program :: nat
  author :: ustring
  license :: ustring
  short_description :: ustring
  input_description :: "(string \<times> ustring) list"
  output_description :: "(string \<times> ustring) list"

subsection \<open>The file system\<close>

text \<open>
  What a path can hold: a directory, a file that decodes to an image (with its format),
  a saved model package (taken as one node), or a file of some other content.
\<close>

datatype node =
    Directory
  | ImageFile string image
  | Package mlmodel
  | OtherFile nat

type_synonym filesystem = "path \<Rightarrow> node option"

text \<open>\<open>os.path.exists\<close> and the two-argument \<open>os.path.join\<close> of posixpath.\<close>

definition path_exists :: "filesystem \<Rightarrow> path \<Rightarrow> bool" where
  "path_exists fs p = (fs p \<noteq> None)"

definition path_join :: "path \<Rightarrow> path \<Rightarrow> path" where
  "path_join a b =
     (if b \<noteq> [] \<and> hd b = CHR ''/'' then b
      else if a = [] \<or> last a = CHR ''/'' then a @ b
      else a @ ''/'' @ b)"

text \<open>
  The ancestor directories of a path, shallowest first: the non-empty prefixes that
  end just before a \<open>/\<close>. \<open>dirname\<close> is the deepest of them (empty for a bare name).
\<close>

fun ancestors_from :: "path \<Rightarrow> path \<Rightarrow> path list" where
  "ancestors_from seen [] = []"
| "ancestors_from seen (c # rest) =
     (if c = CHR ''/'' \<and> seen \<noteq> [] then seen # ancestors_from (seen @ [c]) rest
      else ancestors_from (seen @ [c]) rest)"

definition ancestors :: "path \<Rightarrow> path list" where
  "ancestors p = ancestors_from [] p"

definition dirname :: "path \<Rightarrow> path" where
  "dirname p = (if ancestors p = [] then [] else last (ancestors p))"

text \<open>
  \<open>os.makedirs(name, exist_ok=True)\<close>: every ancestor of \<open>name\<close> and then \<open>name\<close>
  itself is created as a directory where nothing exists, kept where a directory exists,
  and the call raises where something else is in the way. Directories created before
  the raise stay.
\<close>

fun mkdir_chain :: "filesystem \<Rightarrow> path list \<Rightarrow> filesystem \<times> exn option" where
  "mkdir_chain fs [] = (fs, None)"
| "mkdir_chain fs (d # ds) =
     (case fs d of
        None \<Rightarrow> mkdir_chain (fs(d \<mapsto> Directory)) ds
      | Some n \<Rightarrow>
          (if n = Directory then mkdir_chain fs ds
           else (fs, Some (if ds = [] then FileExistsError else NotADirectoryError))))"

definition makedirs :: "filesystem \<Rightarrow> path \<Rightarrow> filesystem \<times> exn option" where
  "makedirs fs name = mkdir_chain fs (ancestors name @ [name])"

text \<open>
  \<open>Image.open(path)\<close> decodes the file at the path, whatever its name says, and
  raises when there is no decodable image there.
\<close>

definition image_open :: "filesystem \<Rightarrow> path \<Rightarrow> exn + image" where
  "image_open fs p =
     (case fs p of
        None \<Rightarrow> Inl FileNotFoundError
      | Some n \<Rightarrow>
          (case n of
             Directory \<Rightarrow> Inl IsADirectoryError
           | ImageFile fmt im \<Rightarrow> Inr im
           | Package m \<Rightarrow> Inl UnidentifiedImageError
           | OtherFile c \<Rightarrow> Inl UnidentifiedImageError))"

text \<open>
  Opening a path for writing can fail for reasons the map of nodes does not show: a
  read-only file or directory, a full or failing device. They are a parameter of a run:
  what opening the path for writing raises, if anything.
\<close>

type_synonym write_faults = "path \<Rightarrow> exn option"

definition no_faults :: write_faults where
  "no_faults = (\<lambda>p. None)"

definition read_only :: write_faults where
  "read_only = (\<lambda>p. Some PermissionError)"

text \<open>
  \<open>img.save(path, format)\<close> writes the image in the given format at the path,
  replacing a file that is there. It raises, and writes nothing, when the path is a
  directory, when the directory it lies in is missing, or when the path cannot be
  opened for writing.
\<close>

definition image_save ::
  "write_faults \<Rightarrow> image \<Rightarrow> path \<Rightarrow> string \<Rightarrow> filesystem \<Rightarrow> filesystem \<times> exn option"
where
  "image_save W im p fmt fs =
     (if fs p = Some Directory then (fs, Some IsADirectoryError)
      else if dirname p \<noteq> [] \<and> fs (dirname p) \<noteq> Some Directory then (fs, Some FileNotFoundError)
      else (case W p of
              Some e \<Rightarrow> (fs, Some e)
            | None \<Rightarrow> (fs(p \<mapsto> ImageFile fmt im), None)))"

subsection \<open>Events of a run\<close>

datatype message =
    Msg_icon_not_found path
  | Msg_icon_start
  | Msg_icon_source path
  | Msg_icon_source_size "nat \<times> nat"
  | Msg_icon_generated string nat nat
  | Msg_icon_error exn
  | Msg_icon_done nat
  | Msg_icon_outdir path
  | Msg_convert_start
  | Msg_loaded
  | Msg_load_failed exn
  | Msg_need_training_code
  | Msg_or_loadable_file
  | Msg_trace_done
  | Msg_already_torchscript
  | Msg_converting
  | Msg_convert_ok
  | Msg_saved_to path
  | Msg_input_shape
  | Msg_output_shape
  | Msg_next_steps
  | Msg_step_drag_into_xcode
  | Msg_step_target_membership
  | Msg_step_run_app
  | Msg_convert_failed exn
  | Msg_possible_causes
  | Msg_cause_architecture
  | Msg_cause_io_definition
  | Msg_cause_torch_version
  | Msg_inspecting
  | Msg_type_torchscript
  | Msg_inspect_input_shape "nat list"
  | Msg_inspect_output_shape "nat list"
  | Msg_inspect_output_dtype string
  | Msg_inspect_failed exn
  | Msg_rule
  | Msg_title
  | Msg_newline_rule
  | Msg_ensure_model

datatype event =
    Print message
  | Os_path_exists path
  | Os_makedirs path
  | Image_open path
  | Image_convert string
  | Image_resize image "nat \<times> nat"
  | Image_save image path string "exn option"
  | Jit_load path
  | Model_eval module
  | Model_forward module "nat list"
  | Jit_trace module "nat list"
  | Ct_convert module conversion
  | Mlmodel_save mlmodel path "exn option"

section \<open>generate\_ios\_icons.py\<close>

definition android_icon_path :: path where
  "android_icon_path = ''AndroidOrigin/app/src/main/res/mipmap-xxxhdpi/ic_launcher.webp''"

definition ios_appicon_dir :: path where
  "ios_appicon_dir = ''BJTUselfServiceApple/BJTUselfServiceApple/Assets.xcassets/AppIcon.appiconset''"

text \<open>The dictionary \<open>ios_icon_sizes\<close>, in its order of insertion.\<close>

definition ios_icon_sizes :: "(string \<times> nat \<times> nat) list" where
  "ios_icon_sizes =
    [(''Icon-App-20x20@2x.png'', (40, 40)),
     (''Icon-App-20x20@3x.png'', (60, 60)),
     (''Icon-App-29x29@2x.png'', (58, 58)),
     (''Icon-App-29x29@3x.png'', (87, 87)),
     (''Icon-App-40x40@2x.png'', (80, 80)),
     (''Icon-App-40x40@3x.png'', (120, 120)),
     (''Icon-App-60x60@2x.png'', (120, 120)),
     (''Icon-App-60x60@3x.png'', (180, 180)),
     (''Icon-App-76x76@1x.png'', (76, 76)),
     (''Icon-App-76x76@2x.png'', (152, 152)),
     (''Icon-App-83.5x83.5@2x.png'', (167, 167)),
     (''Icon-App-1024x1024@1x.png'', (1024, 1024)),
     (''Icon-Mac-16x16@1x.png'', (16, 16)),
     (''Icon-Mac-16x16@2x.png'', (32, 32)),
     (''Icon-Mac-32x32@1x.png'', (32, 32)),
     (''Icon-Mac-32x32@2x.png'', (64, 64)),
     (''Icon-Mac-128x128@1x.png'', (128, 128)),
     (''Icon-Mac-128x128@2x.png'', (256, 256)),
     (''Icon-Mac-256x256@1x.png'', (256, 256)),
     (''Icon-Mac-256x256@2x.png'', (512, 512)),
     (''Icon-Mac-512x512@1x.png'', (512, 512)),
     (''Icon-Mac-512x512@2x.png'', (1024, 1024))]"

text \<open>
  The \<open>for\<close> loop over the table (lines 73 to 81): resize, save, print. An exception
  of \<open>save\<close> leaves the loop; the entries after it are not reached. The result is the
  file system, the events of the loop and the exception that ended it, if any.
\<close>

fun save_icons ::
  "write_faults \<Rightarrow> image \<Rightarrow> (string \<times> nat \<times> nat) list \<Rightarrow> filesystem \<Rightarrow>
     filesystem \<times> event list \<times> exn option"
where
  "save_icons W img [] fs = (fs, [], None)"
| "save_icons W img ((filename, sz) # rest) fs =
     (let output_path = path_join ios_appicon_dir filename;
          resized = resize img sz LANCZOS;
          call = Image_save resized output_path ''PNG''
      in case image_save W resized output_path ''PNG'' fs of
           (fs', Some e) \<Rightarrow> (fs', [Image_resize img sz, call (Some e)], Some e)
         | (fs', None) \<Rightarrow>
             (case save_icons W img rest fs' of
                (fs'', evs, r) \<Rightarrow>
                  (fs'',
                   [Image_resize img sz, call None,
                    Print (Msg_icon_generated filename (fst sz) (snd sz))] @ evs,
                   r)))"

text \<open>
  \<open>generate_icons\<close>. The existence check and \<open>os.makedirs\<close> stand before the
  \<open>try\<close>: an exception of \<open>os.makedirs\<close> is not caught. Everything from
  \<open>Image.open\<close> on is inside the \<open>try\<close>, whose handler prints the exception and
  returns.
\<close>

definition generate_icons ::
  "write_faults \<Rightarrow> filesystem \<Rightarrow> outcome \<times> filesystem \<times> event list"
where
  "generate_icons W fs =
     (if \<not> path_exists fs android_icon_path then
        (Returned, fs,
         [Os_path_exists android_icon_path, Print (Msg_icon_not_found android_icon_path)])
      else
        (case makedirs fs ios_appicon_dir of
           (fs1, Some e) \<Rightarrow>
             (Raised e, fs1, [Os_path_exists android_icon_path, Os_makedirs ios_appicon_dir])
         | (fs1, None) \<Rightarrow>
             (let pre = [Os_path_exists android_icon_path, Os_makedirs ios_appicon_dir,
                         Print Msg_icon_start, Print (Msg_icon_source android_icon_path),
                         Image_open android_icon_path]
              in case image_open fs1 android_icon_path of
                   Inl e \<Rightarrow> (Returned, fs1, pre @ [Print (Msg_icon_error e)])
                 | Inr img0 \<Rightarrow>
                     (let img = (if im_mode img0 \<noteq> ''RGBA'' then convert img0 ''RGBA'' else img0);
                          conv = (if im_mode img0 \<noteq> ''RGBA'' then [Image_convert ''RGBA''] else []);
                          hdr = pre @ conv @ [Print (Msg_icon_source_size (im_size img))]
                      in case save_icons W img ios_icon_sizes fs1 of
                           (fs2, evs, Some e) \<Rightarrow>
                             (Returned, fs2, hdr @ evs @ [Print (Msg_icon_error e)])
                         | (fs2, evs, None) \<Rightarrow>
                             (Returned, fs2,
                              hdr @ evs @ [Print (Msg_icon_done (length ios_icon_sizes)),
                                           Print (Msg_icon_outdir ios_appicon_dir)])))))"

section \<open>convert\_captcha\_model.py\<close>

text \<open>
  torch and coremltools are opaque: what \<open>torch.jit.load\<close>, a forward pass,
  \<open>torch.jit.trace\<close> and \<open>ct.convert\<close> return on a given artifact, and whether
  \<open>mlmodel.save\<close> raises, are parameters of the run. \<open>jit_load\<close> reads the content
  at the model path; \<open>forward\<close> gives the shape and dtype of the output tensor on an
  input of the given shape; each of them returns a value or raises; \<open>save_error\<close> is
  the exception \<open>save\<close> raises in a given file system, if any. \<open>model.eval()\<close>,
  \<open>torch.rand\<close> and the construction of \<open>ct.TensorType\<close> values do not raise.
\<close>

record torch_lib =
  jit_load :: "node option \<Rightarrow> exn + module"
  forward :: "module \<Rightarrow> nat list \<Rightarrow> exn + nat list \<times> string"
  jit_trace :: "module \<Rightarrow> nat list \<Rightarrow> exn + module"
  ct_convert :: "module \<Rightarrow> conversion \<Rightarrow> exn + mlmodel"
  save_error :: "mlmodel \<Rightarrow> path \<Rightarrow> filesystem \<Rightarrow> exn option"

definition model_path :: path where
  "model_path = ''AndroidOrigin/app/src/main/assets/model.pt''"

definition output_path :: path where
  "output_path = ''BJTUselfServiceApple/BJTUselfServiceApple/CaptchaModel.mlpackage''"

definition example_input :: "nat list" where
  "example_input = [1, 3, 42, 130]"

definition tensor_input :: tensor_type where
  "tensor_input =
     \<lparr>tt_name = ''image'', tt_shape = Some [1, 3, 42, 130], tt_dtype = Some ''float32''\<rparr>"

definition convert_request :: conversion where
  "convert_request =
     \<lparr>conv_inputs = [tensor_input],
      conv_outputs = [\<lparr>tt_name = ''logits'', tt_shape = None, tt_dtype = None\<rparr>],
      conv_convert_to = ''mlprogram'',
      conv_compute_units = ComputeUnit_ALL\<rparr>"

text \<open>The metadata strings of lines 85 to 89, non-ASCII characters by code point.\<close>

definition author_text :: ustring where
  "author_text = ascii ''BJTU SelfService Team''"

definition license_text :: ustring where
  "license_text = [0x540C] @ ascii '' Android '' @ [0x7248, 0x672C]"

definition short_description_text :: ustring where
  "short_description_text =
     [0x9A8C, 0x8BC1, 0x7801, 0x8BC6, 0x522B, 0x6A21, 0x578B]
     @ ascii '' -MultiArray [1, 3, 42, 130] - RGB ''
     @ [0x9A8C, 0x8BC1, 0x7801, 0x5F20, 0x91CF] @ ascii '' (''
     @ [0x5F52, 0x4E00, 0x5316, 0x5230] @ ascii '' 0-1)''"

definition logits_description_first :: ustring where
  "logits_description_first =
     ascii ''MultiArray30 RGB '' @ [0x9A8C, 0x8BC1, 0x7801, 0x56FE, 0x7247]"

definition logits_description_second :: ustring where
  "logits_description_second =
     [0x5F62, 0x72B6] @ ascii '' [1, 15, 8] - 8''
     @ [0x4E2A, 0x4F4D, 0x7F6E, 0x7684, 0x7C7B, 0x522B] @ ascii '' logits''"

text \<open>
  The five attribute assignments of lines 85 to 89, in order. An assignment to
  \<open>output_description["logits"]\<close> replaces the value stored under that key. Nothing
  is assigned to \<open>input_description\<close>.
\<close>

definition attach_metadata :: "mlmodel \<Rightarrow> mlmodel" where
  "attach_metadata m0 =
     (let m1 = m0\<lparr>author := author_text\<rparr>;
          m2 = m1\<lparr>license := license_text\<rparr>;
          m3 = m2\<lparr>short_description := short_description_text\<rparr>;
          m4 = m3\<lparr>output_description :=
                    AList.update ''logits'' logits_description_first (output_description m3)\<rparr>;
          m5 = m4\<lparr>output_description :=
                    AList.update ''logits'' logits_description_second (output_description m4)\<rparr>
      in m5)"

text \<open>
  \<open>mlmodel.save(path)\<close> either raises or leaves the package at the path, under
  directories: the directories above the path that were missing are created, as by the
  copy of a directory tree. Whether the library raises is its parameter (a library that
  refuses a missing directory raises there); the call also raises where something other
  than a directory is in the way above the path. The script calls nothing else that
  writes.
\<close>

definition mlmodel_save :: "torch_lib \<Rightarrow> mlmodel \<Rightarrow> path \<Rightarrow> filesystem \<Rightarrow> filesystem \<times> exn option" where
  "mlmodel_save L m p fs =
     (case save_error L m p fs of
        Some e \<Rightarrow> (fs, Some e)
      | None \<Rightarrow>
          (case mkdir_chain fs (ancestors p) of
             (fs1, Some e) \<Rightarrow> (fs1, Some e)
           | (fs1, None) \<Rightarrow> (fs1(p \<mapsto> Package m), None)))"

text \<open>The prints of the success path (lines 95 to 102) and of the handler (lines 105 to 109).\<close>

definition success_report :: "event list" where
  "success_report =
     [Print Msg_convert_ok, Print (Msg_saved_to output_path), Print Msg_input_shape,
      Print Msg_output_shape, Print Msg_next_steps, Print Msg_step_drag_into_xcode,
      Print Msg_step_target_membership, Print Msg_step_run_app]"

definition failure_report :: "exn \<Rightarrow> event list" where
  "failure_report e =
     [Print (Msg_convert_failed e), Print Msg_possible_causes, Print Msg_cause_architecture,
      Print Msg_cause_io_definition, Print Msg_cause_torch_version]"

text \<open>
  \<open>convert_model\<close>. Three \<open>try\<close> blocks: around the load (the handler prints and
  returns), around the trace (the handler keeps the loaded model as the traced one and
  goes on), and around conversion, metadata and save together (the handler prints the
  failure report).
\<close>

definition convert_model :: "torch_lib \<Rightarrow> filesystem \<Rightarrow> outcome \<times> filesystem \<times> event list" where
  "convert_model L fs =
     (let ev0 = [Print Msg_convert_start, Jit_load model_path]
      in case jit_load L (fs model_path) of
           Inl e \<Rightarrow>
             (Returned, fs,
              ev0 @ [Print (Msg_load_failed e), Print Msg_need_training_code,
                     Print Msg_or_loadable_file])
         | Inr model \<Rightarrow>
             (let ev1 = ev0 @ [Print Msg_loaded, Model_eval model, Jit_trace model example_input];
                  traced_model = (case jit_trace L model example_input of
                                    Inr t \<Rightarrow> t | Inl e \<Rightarrow> model);
                  ev2 = ev1 @ (case jit_trace L model example_input of
                                 Inr t \<Rightarrow> [Print Msg_trace_done]
                               | Inl e \<Rightarrow> [Print Msg_already_torchscript])
                            @ [Print Msg_converting, Ct_convert traced_model convert_request]
              in case ct_convert L traced_model convert_request of
                   Inl e \<Rightarrow> (Returned, fs, ev2 @ failure_report e)
                 | Inr mlmodel0 \<Rightarrow>
                     (let mlmodel1 = attach_metadata mlmodel0
                      in case mlmodel_save L mlmodel1 output_path fs of
                           (fs', Some e) \<Rightarrow>
                             (Returned, fs',
                              ev2 @ [Mlmodel_save mlmodel1 output_path (Some e)] @ failure_report e)
                         | (fs', None) \<Rightarrow>
                             (Returned, fs',
                              ev2 @ [Mlmodel_save mlmodel1 output_path None] @ success_report))))"

text \<open>\<open>inspect_model\<close>: load, one forward pass, prints; \<open>False\<close> on any exception.\<close>

definition inspect_model :: "torch_lib \<Rightarrow> filesystem \<Rightarrow> bool \<times> event list" where
  "inspect_model L fs =
     (let ev0 = [Print Msg_inspecting, Jit_load model_path]
      in case jit_load L (fs model_path) of
           Inl e \<Rightarrow> (False, ev0 @ [Print (Msg_inspect_failed e)])
         | Inr model \<Rightarrow>
             (let ev1 = ev0 @ [Print Msg_type_torchscript, Model_forward model example_input]
              in case forward L model example_input of
                   Inl e \<Rightarrow> (False, ev1 @ [Print (Msg_inspect_failed e)])
                 | Inr (shape, dtype) \<Rightarrow>
                     (True,
                      ev1 @ [Print (Msg_inspect_input_shape example_input),
                             Print (Msg_inspect_output_shape shape),
                             Print (Msg_inspect_output_dtype dtype)])))"

text \<open>The script's main block (lines 136 to 146).\<close>

definition exporter_main :: "torch_lib \<Rightarrow> filesystem \<Rightarrow> outcome \<times> filesystem \<times> event list" where
  "exporter_main L fs =
     (let ev0 = [Print Msg_rule, Print Msg_title, Print Msg_rule]
      in case inspect_model L fs of
           (True, ev1) \<Rightarrow>
             (case convert_model L fs of
                (out, fs', ev2) \<Rightarrow> (out, fs', ev0 @ ev1 @ [Print Msg_newline_rule] @ ev2))
         | (False, ev1) \<Rightarrow> (Returned, fs, ev0 @ ev1 @ [Print Msg_ensure_model]))"

section \<open>Reading a run\<close>

text \<open>The three parts of a run's result.\<close>

definition run_outcome :: "outcome \<times> filesystem \<times> event list \<Rightarrow> outcome" where
  "run_outcome r = fst r"

definition run_fs :: "outcome \<times> filesystem \<times> event list \<Rightarrow> filesystem" where
  "run_fs r = fst (snd r)"

definition run_log :: "outcome \<times> filesystem \<times> event list \<Rightarrow> event list" where
  "run_log r = snd (snd r)"

text \<open>
  What a log says was written: the paths and images of the \<open>save\<close> calls that did not
  raise, in order; the paths and exceptions of the \<open>save\<close> calls that raised; the paths
  \<open>Image.open\<close> was called on; the modes \<open>convert\<close> was called with.
\<close>

fun saved :: "event list \<Rightarrow> (path \<times> image) list" where
  "saved [] = []"
| "saved (ev # evs) =
     (case ev of
        Image_save im p fmt r \<Rightarrow> (if r = None then (p, im) # saved evs else saved evs)
      | _ \<Rightarrow> saved evs)"

fun save_failures :: "event list \<Rightarrow> (path \<times> exn) list" where
  "save_failures [] = []"
| "save_failures (ev # evs) =
     (case ev of
        Image_save im p fmt r \<Rightarrow>
          (case r of Some e \<Rightarrow> (p, e) # save_failures evs | None \<Rightarrow> save_failures evs)
      | _ \<Rightarrow> save_failures evs)"

fun opened :: "event list \<Rightarrow> path list" where
  "opened [] = []"
| "opened (ev # evs) = (case ev of Image_open p \<Rightarrow> p # opened evs | _ \<Rightarrow> opened evs)"

fun converted :: "event list \<Rightarrow> string list" where
  "converted [] = []"
| "converted (ev # evs) =
     (case ev of Image_convert m \<Rightarrow> m # converted evs | _ \<Rightarrow> converted evs)"

text \<open>Kinds of library calls, to select them from a log with \<open>filter\<close>.\<close>

definition is_makedirs :: "event \<Rightarrow> bool" where
  "is_makedirs ev = (case ev of Os_makedirs p \<Rightarrow> True | _ \<Rightarrow> False)"

definition is_image_save :: "event \<Rightarrow> bool" where
  "is_image_save ev = (case ev of Image_save im p fmt r \<Rightarrow> True | _ \<Rightarrow> False)"

definition is_jit_load :: "event \<Rightarrow> bool" where
  "is_jit_load ev = (case ev of Jit_load p \<Rightarrow> True | _ \<Rightarrow> False)"

definition is_jit_trace :: "event \<Rightarrow> bool" where
  "is_jit_trace ev = (case ev of Jit_trace m sh \<Rightarrow> True | _ \<Rightarrow> False)"

definition is_ct_convert :: "event \<Rightarrow> bool" where
  "is_ct_convert ev = (case ev of Ct_convert m c \<Rightarrow> True | _ \<Rightarrow> False)"

definition is_mlmodel_save :: "event \<Rightarrow> bool" where
  "is_mlmodel_save ev = (case ev of Mlmodel_save m p r \<Rightarrow> True | _ \<Rightarrow> False)"

text \<open>The paths the loop writes for a table, and for the table of the script.\<close>

definition paths_of :: "(string \<times> nat \<times> nat) list \<Rightarrow> path list" where
  "paths_of tbl = map (\<lambda>(filename, sz). path_join ios_appicon_dir filename) tbl"

definition output_paths :: "path list" where
  "output_paths = paths_of ios_icon_sizes"

section \<open>Example worlds\<close>

text \<open>The file system that holds one file and the directories above it.\<close>

definition file_under_dirs :: "path \<Rightarrow> node \<Rightarrow> filesystem" where
  "file_under_dirs p n =
     (\<lambda>q. if q = p then Some n
          else if q \<in> set (ancestors p) then Some Directory
          else None)"

text \<open>
  A file system that holds the Android icon and nothing else; one where, besides, the
  output directory exists and the first output path is taken by a directory; and one
  whose icon file decodes to a grey image with an alpha band.
\<close>

definition fs_source_only :: filesystem where
  "fs_source_only =
     file_under_dirs android_icon_path
       (ImageFile ''WEBP'' \<lparr>im_mode = ''RGB'', im_size = (192, 192)\<rparr>)"

definition fs_blocked :: filesystem where
  "fs_blocked =
     fs_source_only
       (''BJTUselfServiceApple'' \<mapsto> Directory,
        ''BJTUselfServiceApple/BJTUselfServiceApple'' \<mapsto> Directory,
        ''BJTUselfServiceApple/BJTUselfServiceApple/Assets.xcassets'' \<mapsto> Directory,
        ios_appicon_dir \<mapsto> Directory,
        path_join ios_appicon_dir ''Icon-App-20x20@2x.png'' \<mapsto> Directory)"

definition fs_grey_alpha :: filesystem where
  "fs_grey_alpha =
     file_under_dirs android_icon_path
       (ImageFile ''PNG'' \<lparr>im_mode = ''LA'', im_size = (192, 192)\<rparr>)"

text \<open>
  A file system that holds a model file, and libraries on which every call succeeds;
  variants on which conversion, tracing or loading raises.
\<close>

definition fs_model :: filesystem where
  "fs_model = file_under_dirs model_path (OtherFile 0)"

definition fresh_mlmodel :: mlmodel where
  "fresh_mlmodel =
     \<lparr>program = 7, author = [], license = [], short_description = [],
      input_description = [(''image'', [])],
      output_description = [(''logits'', [])]\<rparr>"

definition lib_ok :: torch_lib where
  "lib_ok =
     \<lparr>jit_load = (\<lambda>n. case n of None \<Rightarrow> Inl FileNotFoundError | Some f \<Rightarrow> Inr 5),
      forward = (\<lambda>m sh. Inr ([1, 15, 8], ''float32'')),
      jit_trace = (\<lambda>m sh. Inr 6),
      ct_convert = (\<lambda>m c. Inr fresh_mlmodel),
      save_error = (\<lambda>m p fs. None)\<rparr>"

definition lib_unsupported :: torch_lib where
  "lib_unsupported = lib_ok\<lparr>ct_convert := (\<lambda>m c. Inl (LibraryError 1))\<rparr>"

definition lib_untraceable :: torch_lib where
  "lib_untraceable = lib_ok\<lparr>jit_trace := (\<lambda>m sh. Inl (LibraryError 2))\<rparr>"

definition lib_unloadable :: torch_lib where
  "lib_unloadable = lib_ok\<lparr>jit_load := (\<lambda>n. Inl (LibraryError 3))\<rparr>"

section \<open>Paths of the icon generator\<close>

lemma length_ios_icon_sizes: "length ios_icon_sizes = 22"
  by (simp add: ios_icon_sizes_def)

lemma ancestors_from_append:
  "ancestors_from seen (xs @ ys) = ancestors_from seen xs @ ancestors_from (seen @ xs) ys"
  by (induction xs arbitrary: seen) auto

lemma ancestors_from_no_slash:
  "CHR ''/'' \<notin> set n \<Longrightarrow> ancestors_from seen n = []"
  by (induction n arbitrary: seen) auto

lemma ancestors_child:
  assumes "d \<noteq> []" and "CHR ''/'' \<notin> set n"
  shows "ancestors (d @ ''/'' @ n) = ancestors d @ [d]"
  using assms by (simp add: ancestors_def ancestors_from_append ancestors_from_no_slash)

lemma dirname_child:
  assumes "d \<noteq> []" and "CHR ''/'' \<notin> set n"
  shows "dirname (d @ ''/'' @ n) = d"
  using ancestors_child [OF assms] by (simp add: dirname_def)

lemma path_join_dir:
  "n \<noteq> [] \<Longrightarrow> hd n \<noteq> CHR ''/'' \<Longrightarrow> path_join ios_appicon_dir n = ios_appicon_dir @ ''/'' @ n"
  by (simp add: path_join_def ios_appicon_dir_def)

lemma table_names_plain:
  "list_all (\<lambda>(n, sz). n \<noteq> [] \<and> CHR ''/'' \<notin> set n) ios_icon_sizes"
  by (simp add: ios_icon_sizes_def)

lemma distinct_table_names: "distinct (map fst ios_icon_sizes)"
  by (simp add: ios_icon_sizes_def)

lemma ancestors_dir:
  "ancestors ios_appicon_dir =
     [''BJTUselfServiceApple'', ''BJTUselfServiceApple/BJTUselfServiceApple'',
      ''BJTUselfServiceApple/BJTUselfServiceApple/Assets.xcassets'']"
  by (simp add: ancestors_def ios_appicon_dir_def)

lemma dirname_chain:
  "list_all (\<lambda>d. dirname d \<noteq> ios_appicon_dir)
     (android_icon_path # ancestors ios_appicon_dir @ [ios_appicon_dir])"
  unfolding ancestors_dir
  by (simp add: dirname_def ancestors_def ios_appicon_dir_def android_icon_path_def)

lemma table_join:
  assumes "(n, sz) \<in> set ios_icon_sizes"
  shows "path_join ios_appicon_dir n = ios_appicon_dir @ ''/'' @ n"
    and "CHR ''/'' \<notin> set n"
proof -
  from assms table_names_plain have n: "n \<noteq> []" "CHR ''/'' \<notin> set n"
    by (auto simp: list_all_iff)
  then have "hd n \<noteq> CHR ''/''" by (cases n) auto
  with n show "path_join ios_appicon_dir n = ios_appicon_dir @ ''/'' @ n"
    by (simp add: path_join_dir)
  from n show "CHR ''/'' \<notin> set n" by simp
qed

lemma dirname_output:
  assumes "p \<in> set output_paths"
  shows "dirname p = ios_appicon_dir"
proof -
  from assms obtain n sz where mem: "(n, sz) \<in> set ios_icon_sizes"
    and p: "p = path_join ios_appicon_dir n"
    by (auto simp: output_paths_def paths_of_def)
  have "ios_appicon_dir \<noteq> []" by (simp add: ios_appicon_dir_def)
  with table_join [OF mem] p dirname_child show ?thesis by simp
qed

lemma inj_on_join: "inj_on (path_join ios_appicon_dir) (fst ` set ios_icon_sizes)"
proof (rule inj_onI)
  fix a b
  assume "a \<in> fst ` set ios_icon_sizes" and "b \<in> fst ` set ios_icon_sizes"
    and eq: "path_join ios_appicon_dir a = path_join ios_appicon_dir b"
  then obtain sa sb where "(a, sa) \<in> set ios_icon_sizes" "(b, sb) \<in> set ios_icon_sizes"
    by auto
  then have "path_join ios_appicon_dir a = ios_appicon_dir @ ''/'' @ a"
    and "path_join ios_appicon_dir b = ios_appicon_dir @ ''/'' @ b"
    by (simp_all add: table_join(1))
  with eq show "a = b" by simp
qed

lemma output_paths_map: "output_paths = map (path_join ios_appicon_dir) (map fst ios_icon_sizes)"
  by (simp add: output_paths_def paths_of_def case_prod_unfold comp_def)

lemma distinct_output_paths: "distinct output_paths"
  unfolding output_paths_map
  by (rule iffD2 [OF distinct_map]) (simp only: set_map distinct_table_names inj_on_join simp_thms)

lemma source_not_output: "android_icon_path \<notin> set output_paths"
  using dirname_chain dirname_output by auto

lemma chain_not_output:
  "d \<in> set (ancestors ios_appicon_dir @ [ios_appicon_dir]) \<Longrightarrow> d \<notin> set output_paths"
  using dirname_chain dirname_output by (auto simp: list_all_iff)

section \<open>Directory creation\<close>

lemma mkdir_chain_keeps:
  "mkdir_chain fs ds = (fs', r) \<Longrightarrow> fs q \<noteq> None \<Longrightarrow> fs' q = fs q"
  by (induction ds arbitrary: fs) (auto split: option.splits if_splits)

lemma mkdir_chain_frame:
  "mkdir_chain fs ds = (fs', r) \<Longrightarrow> q \<notin> set ds \<Longrightarrow> fs' q = fs q"
  by (induction ds arbitrary: fs) (auto split: option.splits if_splits)

lemma mkdir_chain_made:
  "mkdir_chain fs ds = (fs', None) \<Longrightarrow> d \<in> set ds \<Longrightarrow> fs' d = Some Directory"
proof (induction ds arbitrary: fs)
  case Nil
  then show ?case by simp
next
  case (Cons a ds)
  show ?case
  proof (cases "fs a")
    case None
    with Cons.prems have rec: "mkdir_chain (fs(a \<mapsto> Directory)) ds = (fs', None)" by simp
    show ?thesis
    proof (cases "d \<in> set ds")
      case True
      with rec Cons.IH show ?thesis by blast
    next
      case False
      with Cons.prems have "d = a" by simp
      with mkdir_chain_keeps [OF rec, of a] show ?thesis by simp
    qed
  next
    case (Some n)
    with Cons.prems have n: "n = Directory" and rec: "mkdir_chain fs ds = (fs', None)"
      by (auto split: if_splits)
    show ?thesis
    proof (cases "d \<in> set ds")
      case True
      with rec Cons.IH show ?thesis by blast
    next
      case False
      with Cons.prems have "d = a" by simp
      with mkdir_chain_keeps [OF rec, of a] Some n show ?thesis by simp
    qed
  qed
qed

lemma mkdir_chain_all_dirs:
  "\<forall>d \<in> set ds. fs d = Some Directory \<Longrightarrow> mkdir_chain fs ds = (fs, None)"
  by (induction ds) auto

lemma mkdir_chain_again:
  "mkdir_chain fs ds = (fs', r) \<Longrightarrow> mkdir_chain fs' ds = (fs', r)"
proof (induction ds arbitrary: fs)
  case Nil
  then show ?case by simp
next
  case (Cons a ds)
  show ?case
  proof (cases "fs a")
    case None
    with Cons.prems have rec: "mkdir_chain (fs(a \<mapsto> Directory)) ds = (fs', r)" by simp
    from mkdir_chain_keeps [OF rec, of a] have "fs' a = Some Directory" by simp
    with Cons.IH [OF rec] show ?thesis by simp
  next
    case (Some n)
    show ?thesis
    proof (cases "n = Directory")
      case True
      with Some Cons.prems have rec: "mkdir_chain fs ds = (fs', r)" by simp
      from mkdir_chain_keeps [OF rec, of a] Some True have "fs' a = Some Directory" by simp
      with Cons.IH [OF rec] show ?thesis by simp
    next
      case False
      with Some Cons.prems show ?thesis by auto
    qed
  qed
qed

section \<open>The save loop\<close>

lemma image_save_cases:
  "image_save W im p fmt fs = (fs', r) \<Longrightarrow>
     (r \<noteq> None \<and> fs' = fs) \<or>
     (r = None \<and> fs p \<noteq> Some Directory \<and> W p = None \<and> fs' = fs(p \<mapsto> ImageFile fmt im))"
  by (auto simp: image_save_def split: if_splits option.splits)

text \<open>One turn of the loop, by the result of its \<open>save\<close>.\<close>

lemma save_icons_raise:
  assumes "image_save W (resize img sz LANCZOS) (path_join ios_appicon_dir n) ''PNG'' fs = (fa, Some x)"
  shows "save_icons W img ((n, sz) # tbl) fs =
           (fa, [Image_resize img sz,
                 Image_save (resize img sz LANCZOS) (path_join ios_appicon_dir n) ''PNG'' (Some x)],
            Some x)"
  using assms by simp

lemma save_icons_next:
  assumes "image_save W (resize img sz LANCZOS) (path_join ios_appicon_dir n) ''PNG'' fs = (fa, None)"
    and "save_icons W img tbl fa = (fb, eb, rb)"
  shows "save_icons W img ((n, sz) # tbl) fs =
           (fb, [Image_resize img sz,
                 Image_save (resize img sz LANCZOS) (path_join ios_appicon_dir n) ''PNG'' None,
                 Print (Msg_icon_generated n (fst sz) (snd sz))] @ eb,
            rb)"
  using assms by simp

lemma save_icons_frame:
  "save_icons W img tbl fs = (fs', evs, r) \<Longrightarrow> q \<notin> set (paths_of tbl) \<Longrightarrow> fs' q = fs q"
proof (induction tbl arbitrary: fs fs' evs r)
  case Nil
  then show ?case by simp
next
  case (Cons e tbl)
  obtain n sz where e: "e = (n, sz)" by (cases e)
  obtain fa ra where s: "image_save W (resize img sz LANCZOS) (path_join ios_appicon_dir n) ''PNG'' fs = (fa, ra)"
    by (cases "image_save W (resize img sz LANCZOS) (path_join ios_appicon_dir n) ''PNG'' fs")
  from Cons.prems(2) e have q: "q \<noteq> path_join ios_appicon_dir n" "q \<notin> set (paths_of tbl)"
    by (auto simp: paths_of_def)
  show ?case
  proof (cases ra)
    case None
    obtain fb eb rb where rec: "save_icons W img tbl fa = (fb, eb, rb)"
      by (cases "save_icons W img tbl fa")
    with Cons.prems(1) e s None have "fs' = fb" by simp
    moreover from Cons.IH [OF rec q(2)] have "fb q = fa q" .
    moreover from image_save_cases [OF s] None q(1) have "fa q = fs q" by auto
    ultimately show ?thesis by simp
  next
    case (Some x)
    with Cons.prems(1) e s have "fs' = fa" by simp
    with image_save_cases [OF s] Some show ?thesis by auto
  qed
qed

lemma save_icons_keeps_dirs:
  "save_icons W img tbl fs = (fs', evs, r) \<Longrightarrow> fs q = Some Directory \<Longrightarrow> fs' q = Some Directory"
proof (induction tbl arbitrary: fs fs' evs r)
  case Nil
  then show ?case by simp
next
  case (Cons e tbl)
  obtain n sz where e: "e = (n, sz)" by (cases e)
  obtain fa ra where s: "image_save W (resize img sz LANCZOS) (path_join ios_appicon_dir n) ''PNG'' fs = (fa, ra)"
    by (cases "image_save W (resize img sz LANCZOS) (path_join ios_appicon_dir n) ''PNG'' fs")
  from image_save_cases [OF s] Cons.prems(2) have fa: "fa q = Some Directory" by auto
  show ?case
  proof (cases ra)
    case None
    obtain fb eb rb where rec: "save_icons W img tbl fa = (fb, eb, rb)"
      by (cases "save_icons W img tbl fa")
    with Cons.prems(1) e s None have "fs' = fb" by simp
    with Cons.IH [OF rec fa] show ?thesis by simp
  next
    case (Some x)
    with Cons.prems(1) e s have "fs' = fa" by simp
    with fa show ?thesis by simp
  qed
qed

lemma save_icons_again:
  "save_icons W img tbl fs = (fs', evs, r) \<Longrightarrow> distinct (paths_of tbl) \<Longrightarrow>
     save_icons W img tbl fs' = (fs', evs, r)"
proof (induction tbl arbitrary: fs fs' evs r)
  case Nil
  then show ?case by simp
next
  case (Cons e tbl)
  obtain n sz where e: "e = (n, sz)" by (cases e)
  let ?p = "path_join ios_appicon_dir n"
  let ?im = "resize img sz LANCZOS"
  obtain fa ra where s: "image_save W ?im ?p ''PNG'' fs = (fa, ra)"
    by (cases "image_save W ?im ?p ''PNG'' fs")
  from Cons.prems(2) e have d: "?p \<notin> set (paths_of tbl)" "distinct (paths_of tbl)"
    by (auto simp: paths_of_def)
  show ?case
  proof (cases ra)
    case None
    obtain fb eb rb where rec: "save_icons W img tbl fa = (fb, eb, rb)"
      by (cases "save_icons W img tbl fa")
    with Cons.prems(1) e s None have res: "fs' = fb" "r = rb"
      "evs = [Image_resize img sz, Image_save ?im ?p ''PNG'' None,
              Print (Msg_icon_generated n (fst sz) (snd sz))] @ eb"
      by simp_all
    from s None have fa: "fa = fs(?p \<mapsto> ImageFile ''PNG'' ?im)"
      and par: "dirname ?p = [] \<or> fs (dirname ?p) = Some Directory"
      and nd: "fs ?p \<noteq> Some Directory"
      and wp: "W ?p = None"
      by (auto simp: image_save_def split: if_splits option.splits)
    from save_icons_frame [OF rec d(1)] fa have at: "fb ?p = Some (ImageFile ''PNG'' ?im)" by simp
    have par': "dirname ?p = [] \<or> fb (dirname ?p) = Some Directory"
    proof (cases "dirname ?p = []")
      case True
      then show ?thesis by simp
    next
      case False
      with par have pd: "fs (dirname ?p) = Some Directory" by simp
      with nd have "dirname ?p \<noteq> ?p" by auto
      with pd fa have "fa (dirname ?p) = Some Directory" by simp
      from save_icons_keeps_dirs [OF rec this] show ?thesis by simp
    qed
    from at have "fb(?p \<mapsto> ImageFile ''PNG'' ?im) = fb" by (auto simp: fun_upd_idem_iff)
    with at par' wp have "image_save W ?im ?p ''PNG'' fb = (fb, None)"
      by (auto simp: image_save_def)
    with Cons.IH [OF rec d(2)] res e show ?thesis by simp
  next
    case (Some x)
    with Cons.prems(1) e s have "fs' = fa" by simp
    moreover from image_save_cases [OF s] Some have "fa = fs" by auto
    ultimately show ?thesis using Cons.prems(1) by simp
  qed
qed

lemma saved_append: "saved (xs @ ys) = saved xs @ saved ys"
  by (induction xs) (simp_all split: event.split)

lemma opened_append: "opened (xs @ ys) = opened xs @ opened ys"
  by (induction xs) (simp_all split: event.split)

lemma converted_append: "converted (xs @ ys) = converted xs @ converted ys"
  by (induction xs) (simp_all split: event.split)

lemma save_failures_append: "save_failures (xs @ ys) = save_failures xs @ save_failures ys"
  by (induction xs) (simp_all split: event.split option.split)

lemma save_icons_Cons_cases:
  assumes "save_icons W img ((n, sz) # tbl) fs = (fs', evs, r)"
  obtains (raised) x where
      "image_save W (resize img sz LANCZOS) (path_join ios_appicon_dir n) ''PNG'' fs = (fs', Some x)"
      "evs = [Image_resize img sz,
              Image_save (resize img sz LANCZOS) (path_join ios_appicon_dir n) ''PNG'' (Some x)]"
      "r = Some x"
  | (went_on) fa eb where
      "image_save W (resize img sz LANCZOS) (path_join ios_appicon_dir n) ''PNG'' fs = (fa, None)"
      "save_icons W img tbl fa = (fs', eb, r)"
      "evs = [Image_resize img sz,
              Image_save (resize img sz LANCZOS) (path_join ios_appicon_dir n) ''PNG'' None,
              Print (Msg_icon_generated n (fst sz) (snd sz))] @ eb"
proof -
  obtain fa ra where s: "image_save W (resize img sz LANCZOS) (path_join ios_appicon_dir n) ''PNG'' fs = (fa, ra)"
    by (cases "image_save W (resize img sz LANCZOS) (path_join ios_appicon_dir n) ''PNG'' fs")
  show thesis
  proof (cases ra)
    case None
    obtain fb eb rb where rec: "save_icons W img tbl fa = (fb, eb, rb)"
      by (cases "save_icons W img tbl fa")
    have "(fs', evs, r) = (fb, [Image_resize img sz,
              Image_save (resize img sz LANCZOS) (path_join ios_appicon_dir n) ''PNG'' None,
              Print (Msg_icon_generated n (fst sz) (snd sz))] @ eb, rb)"
      unfolding assms [symmetric] by (rule save_icons_next [OF s [unfolded None] rec])
    with s None rec went_on show ?thesis by simp
  next
    case (Some x)
    have "(fs', evs, r) = (fa, [Image_resize img sz,
              Image_save (resize img sz LANCZOS) (path_join ios_appicon_dir n) ''PNG'' (Some x)], Some x)"
      unfolding assms [symmetric] by (rule save_icons_raise [OF s [unfolded Some]])
    with s Some raised show ?thesis by simp
  qed
qed

lemma save_icons_calls:
  "save_icons W img tbl fs = (fs', evs, r) \<Longrightarrow> opened evs = [] \<and> converted evs = []"
proof (induction tbl arbitrary: fs fs' evs r)
  case Nil
  then show ?case by simp
next
  case (Cons e tbl)
  obtain n sz where e: "e = (n, sz)" by (cases e)
  from Cons.prems have run: "save_icons W img ((n, sz) # tbl) fs = (fs', evs, r)" unfolding e .
  from run show ?case
  proof (cases rule: save_icons_Cons_cases)
    case (raised x)
    then show ?thesis by simp
  next
    case (went_on fa eb)
    with Cons.IH [OF went_on(2)] show ?thesis by simp
  qed
qed

text \<open>The loop ends with an exception exactly when one of its saves raised.\<close>

lemma save_icons_failures:
  "save_icons W img tbl fs = (fs', evs, r) \<Longrightarrow> (save_failures evs = []) = (r = None)"
proof (induction tbl arbitrary: fs fs' evs r)
  case Nil
  then show ?case by auto
next
  case (Cons e tbl)
  obtain n sz where e: "e = (n, sz)" by (cases e)
  from Cons.prems have run: "save_icons W img ((n, sz) # tbl) fs = (fs', evs, r)" unfolding e .
  from run show ?case
  proof (cases rule: save_icons_Cons_cases)
    case (raised x)
    then show ?thesis by simp
  next
    case (went_on fa eb)
    with Cons.IH [OF went_on(2)] show ?thesis by simp
  qed
qed

lemma save_icons_saved_prefix:
  "save_icons W img tbl fs = (fs', evs, r) \<Longrightarrow>
     \<exists>k \<le> length tbl. saved evs =
        map (\<lambda>(n, sz). (path_join ios_appicon_dir n, resize img sz LANCZOS)) (take k tbl)
        \<and> (r = None \<longrightarrow> k = length tbl)"
proof (induction tbl arbitrary: fs fs' evs r)
  case Nil
  then show ?case by simp
next
  case (Cons e tbl)
  obtain n sz where e: "e = (n, sz)" by (cases e)
  from Cons.prems have run: "save_icons W img ((n, sz) # tbl) fs = (fs', evs, r)" unfolding e .
  from run show ?case
  proof (cases rule: save_icons_Cons_cases)
    case (raised x)
    then have "saved evs = []" "r \<noteq> None" by simp_all
    then show ?thesis by (intro exI [of _ 0]) simp
  next
    case (went_on fa eb)
    then have res: "saved evs = (path_join ios_appicon_dir n, resize img sz LANCZOS) # saved eb"
      by simp
    from Cons.IH [OF went_on(2)] obtain k where k: "k \<le> length tbl"
      "saved eb = map (\<lambda>(n, sz). (path_join ios_appicon_dir n, resize img sz LANCZOS)) (take k tbl)"
      "r = None \<longrightarrow> k = length tbl"
      by blast
    show ?thesis
    proof (intro exI [of _ "Suc k"] conjI)
      show "Suc k \<le> length (e # tbl)" using k(1) by simp
      show "saved evs = map (\<lambda>(n, sz). (path_join ios_appicon_dir n, resize img sz LANCZOS)) (take (Suc k) (e # tbl))"
        using res k(2) e by simp
      show "r = None \<longrightarrow> Suc k = length (e # tbl)" using k(3) by simp
    qed
  qed
qed

lemma save_icons_saved_all:
  assumes "save_icons W img tbl fs = (fs', evs, None)"
  shows "saved evs = map (\<lambda>(n, sz). (path_join ios_appicon_dir n, resize img sz LANCZOS)) tbl"
  using save_icons_saved_prefix [OF assms] by auto

lemma save_icons_saved_from_table:
  assumes "save_icons W img tbl fs = (fs', evs, r)" and "(p, im) \<in> set (saved evs)"
  shows "\<exists>n sz. (n, sz) \<in> set tbl \<and> p = path_join ios_appicon_dir n \<and> im = resize img sz LANCZOS"
proof -
  from save_icons_saved_prefix [OF assms(1)] obtain k where
    "saved evs = map (\<lambda>(n, sz). (path_join ios_appicon_dir n, resize img sz LANCZOS)) (take k tbl)"
    by blast
  with assms(2) obtain n sz where "(n, sz) \<in> set (take k tbl)"
    "p = path_join ios_appicon_dir n" "im = resize img sz LANCZOS"
    by auto
  moreover have "set (take k tbl) \<subseteq> set tbl" by (rule set_take_subset)
  ultimately show ?thesis by blast
qed

lemma save_icons_written:
  "save_icons W img tbl fs = (fs', evs, r) \<Longrightarrow> distinct (paths_of tbl) \<Longrightarrow>
     (p, im) \<in> set (saved evs) \<Longrightarrow> fs' p = Some (ImageFile ''PNG'' im)"
proof (induction tbl arbitrary: fs fs' evs r)
  case Nil
  then show ?case by simp
next
  case (Cons e tbl)
  obtain n sz where e: "e = (n, sz)" by (cases e)
  let ?p = "path_join ios_appicon_dir n"
  let ?im = "resize img sz LANCZOS"
  from Cons.prems(1) have run: "save_icons W img ((n, sz) # tbl) fs = (fs', evs, r)" unfolding e .
  from Cons.prems(2) e have d: "?p \<notin> set (paths_of tbl)" "distinct (paths_of tbl)"
    by (auto simp: paths_of_def)
  from run show ?case
  proof (cases rule: save_icons_Cons_cases)
    case (raised x)
    then have "saved evs = []" by simp
    with Cons.prems(3) show ?thesis by simp
  next
    case (went_on fa eb)
    then have res: "saved evs = (?p, ?im) # saved eb" by simp
    from image_save_cases [OF went_on(1)] have fa: "fa = fs(?p \<mapsto> ImageFile ''PNG'' ?im)" by auto
    show ?thesis
    proof (cases "(p, im) \<in> set (saved eb)")
      case True
      from Cons.IH [OF went_on(2) d(2) True] show ?thesis .
    next
      case False
      with Cons.prems(3) res have "p = ?p" "im = ?im" by auto
      with save_icons_frame [OF went_on(2) d(1)] fa show ?thesis by simp
    qed
  qed
qed

lemma save_icons_succeeds:
  assumes "\<forall>p \<in> set (paths_of tbl). fs p \<noteq> Some Directory \<and> dirname p = D \<and> W p = None"
    and "fs D = Some Directory"
  shows "\<exists>fs' evs. save_icons W img tbl fs = (fs', evs, None)"
  using assms
proof (induction tbl arbitrary: fs)
  case Nil
  then show ?case by simp
next
  case (Cons e tbl)
  obtain n sz where e: "e = (n, sz)" by (cases e)
  let ?p = "path_join ios_appicon_dir n"
  let ?im = "resize img sz LANCZOS"
  let ?fa = "fs(?p \<mapsto> ImageFile ''PNG'' ?im)"
  from Cons.prems e have p: "fs ?p \<noteq> Some Directory" "dirname ?p = D" "W ?p = None"
    by (auto simp: paths_of_def)
  with Cons.prems(2) have s: "image_save W ?im ?p ''PNG'' fs = (?fa, None)"
    by (simp add: image_save_def)
  from p Cons.prems(2) have "D \<noteq> ?p" by auto
  with Cons.prems(2) have dirD: "?fa D = Some Directory" by simp
  from Cons.prems(1)
  have "\<forall>q \<in> set (paths_of tbl). ?fa q \<noteq> Some Directory \<and> dirname q = D \<and> W q = None"
    by (auto simp: paths_of_def)
  from Cons.IH [OF this dirD] obtain fb eb where rec: "save_icons W img tbl ?fa = (fb, eb, None)"
    by blast
  from save_icons_next [OF s rec] e show ?case by blast
qed

section \<open>Runs of the icon generator\<close>

lemma generate_icons_missing:
  assumes "\<not> path_exists fs android_icon_path"
  shows "generate_icons W fs =
           (Returned, fs,
            [Os_path_exists android_icon_path, Print (Msg_icon_not_found android_icon_path)])"
  using assms by (simp add: generate_icons_def)

lemma generate_icons_makedirs_raised:
  assumes "path_exists fs android_icon_path" and "makedirs fs ios_appicon_dir = (fs1, Some e)"
  shows "generate_icons W fs =
           (Raised e, fs1, [Os_path_exists android_icon_path, Os_makedirs ios_appicon_dir])"
  using assms by (simp add: generate_icons_def)

lemma generate_icons_open_raised:
  assumes "path_exists fs android_icon_path" and "makedirs fs ios_appicon_dir = (fs1, None)"
    and "image_open fs1 android_icon_path = Inl e"
  shows "generate_icons W fs =
           (Returned, fs1,
            [Os_path_exists android_icon_path, Os_makedirs ios_appicon_dir,
             Print Msg_icon_start, Print (Msg_icon_source android_icon_path),
             Image_open android_icon_path, Print (Msg_icon_error e)])"
  using assms by (simp add: generate_icons_def)

lemma generate_icons_loop:
  assumes "path_exists fs android_icon_path" and "makedirs fs ios_appicon_dir = (fs1, None)"
    and "image_open fs1 android_icon_path = Inr img0"
    and "save_icons W (if im_mode img0 \<noteq> ''RGBA'' then convert img0 ''RGBA'' else img0)
           ios_icon_sizes fs1 = (fs2, evs, r)"
  shows "generate_icons W fs =
           (Returned, fs2,
            [Os_path_exists android_icon_path, Os_makedirs ios_appicon_dir,
             Print Msg_icon_start, Print (Msg_icon_source android_icon_path),
             Image_open android_icon_path]
            @ (if im_mode img0 \<noteq> ''RGBA'' then [Image_convert ''RGBA''] else [])
            @ [Print (Msg_icon_source_size
                 (im_size (if im_mode img0 \<noteq> ''RGBA'' then convert img0 ''RGBA'' else img0)))]
            @ evs
            @ (case r of
                 Some e \<Rightarrow> [Print (Msg_icon_error e)]
               | None \<Rightarrow> [Print (Msg_icon_done (length ios_icon_sizes)),
                           Print (Msg_icon_outdir ios_appicon_dir)]))"
  using assms by (simp add: generate_icons_def Let_def split: option.split)

lemma makedirs_keeps_source:
  assumes "path_exists fs android_icon_path" and "makedirs fs ios_appicon_dir = (fs1, r)"
  shows "fs1 android_icon_path = fs android_icon_path"
  using assms mkdir_chain_keeps [of fs _ fs1 r android_icon_path]
  by (simp add: makedirs_def path_exists_def)

lemma generate_icons_again:
  "generate_icons W (run_fs (generate_icons W fs)) = generate_icons W fs"
proof (cases "path_exists fs android_icon_path")
  case False
  from generate_icons_missing [OF False] show ?thesis by (simp add: run_fs_def)
next
  case True
  obtain fs1 r1 where m: "makedirs fs ios_appicon_dir = (fs1, r1)"
    by (cases "makedirs fs ios_appicon_dir")
  from makedirs_keeps_source [OF True m] True have ex1: "path_exists fs1 android_icon_path"
    by (simp add: path_exists_def)
  from m have m1: "makedirs fs1 ios_appicon_dir = (fs1, r1)"
    by (simp add: makedirs_def mkdir_chain_again)
  show ?thesis
  proof (cases r1)
    case (Some e)
    from generate_icons_makedirs_raised [OF True m [unfolded Some]]
      generate_icons_makedirs_raised [OF ex1 m1 [unfolded Some]]
    show ?thesis by (simp add: run_fs_def)
  next
    case None
    show ?thesis
    proof (cases "image_open fs1 android_icon_path")
      case (Inl e)
      from generate_icons_open_raised [OF True m [unfolded None] Inl]
        generate_icons_open_raised [OF ex1 m1 [unfolded None] Inl]
      show ?thesis by (simp add: run_fs_def)
    next
      case (Inr img0)
      let ?img = "if im_mode img0 \<noteq> ''RGBA'' then convert img0 ''RGBA'' else img0"
      obtain fs2 evs r where s: "save_icons W ?img ios_icon_sizes fs1 = (fs2, evs, r)"
        by (cases "save_icons W ?img ios_icon_sizes fs1")
      note run1 = generate_icons_loop [OF True m [unfolded None] Inr s]
      have src: "fs2 android_icon_path = fs1 android_icon_path"
        using save_icons_frame [OF s] source_not_output by (simp add: output_paths_def)
      with ex1 have ex2: "path_exists fs2 android_icon_path" by (simp add: path_exists_def)
      have "\<forall>d \<in> set (ancestors ios_appicon_dir @ [ios_appicon_dir]). fs2 d = Some Directory"
      proof
        fix d assume "d \<in> set (ancestors ios_appicon_dir @ [ios_appicon_dir])"
        with m None have "fs1 d = Some Directory"
          using mkdir_chain_made [of fs "ancestors ios_appicon_dir @ [ios_appicon_dir]" fs1 d]
          by (simp add: makedirs_def)
        from save_icons_keeps_dirs [OF s this] show "fs2 d = Some Directory" .
      qed
      then have m2: "makedirs fs2 ios_appicon_dir = (fs2, None)"
        unfolding makedirs_def by (rule mkdir_chain_all_dirs)
      from src Inr have o2: "image_open fs2 android_icon_path = Inr img0"
        by (simp add: image_open_def)
      from distinct_output_paths have "distinct (paths_of ios_icon_sizes)"
        by (simp add: output_paths_def)
      from save_icons_again [OF s this] have s2: "save_icons W ?img ios_icon_sizes fs2 = (fs2, evs, r)" .
      from run1 generate_icons_loop [OF ex2 m2 o2 s2] show ?thesis by (simp add: run_fs_def)
    qed
  qed
qed

text \<open>Every run of \<open>generate_icons\<close> is one of four.\<close>

lemma generate_icons_cases:
  obtains (missing) "\<not> path_exists fs android_icon_path"
      "generate_icons W fs =
         (Returned, fs,
          [Os_path_exists android_icon_path, Print (Msg_icon_not_found android_icon_path)])"
  | (makedirs_raised) fs1 e where "path_exists fs android_icon_path"
      "makedirs fs ios_appicon_dir = (fs1, Some e)"
      "generate_icons W fs =
         (Raised e, fs1, [Os_path_exists android_icon_path, Os_makedirs ios_appicon_dir])"
  | (open_raised) fs1 e where "path_exists fs android_icon_path"
      "makedirs fs ios_appicon_dir = (fs1, None)"
      "image_open fs1 android_icon_path = Inl e"
      "generate_icons W fs =
         (Returned, fs1,
          [Os_path_exists android_icon_path, Os_makedirs ios_appicon_dir,
           Print Msg_icon_start, Print (Msg_icon_source android_icon_path),
           Image_open android_icon_path, Print (Msg_icon_error e)])"
  | (looped) fs1 img0 img fs2 evs r where "path_exists fs android_icon_path"
      "makedirs fs ios_appicon_dir = (fs1, None)"
      "image_open fs1 android_icon_path = Inr img0"
      "img = (if im_mode img0 \<noteq> ''RGBA'' then convert img0 ''RGBA'' else img0)"
      "save_icons W img ios_icon_sizes fs1 = (fs2, evs, r)"
      "generate_icons W fs =
         (Returned, fs2,
          [Os_path_exists android_icon_path, Os_makedirs ios_appicon_dir,
           Print Msg_icon_start, Print (Msg_icon_source android_icon_path),
           Image_open android_icon_path]
          @ (if im_mode img0 \<noteq> ''RGBA'' then [Image_convert ''RGBA''] else [])
          @ [Print (Msg_icon_source_size (im_size img))]
          @ evs
          @ (case r of
               Some e \<Rightarrow> [Print (Msg_icon_error e)]
             | None \<Rightarrow> [Print (Msg_icon_done (length ios_icon_sizes)),
                         Print (Msg_icon_outdir ios_appicon_dir)]))"
proof (cases "path_exists fs android_icon_path")
  case False
  from False generate_icons_missing [OF False] show ?thesis by (rule missing)
next
  case True
  obtain fs1 r1 where m: "makedirs fs ios_appicon_dir = (fs1, r1)"
    by (cases "makedirs fs ios_appicon_dir")
  show ?thesis
  proof (cases r1)
    case (Some e)
    from True m [unfolded Some] generate_icons_makedirs_raised [OF True m [unfolded Some]]
    show ?thesis by (rule makedirs_raised)
  next
    case None
    show ?thesis
    proof (cases "image_open fs1 android_icon_path")
      case (Inl e)
      from True m [unfolded None] Inl generate_icons_open_raised [OF True m [unfolded None] Inl]
      show ?thesis by (rule open_raised)
    next
      case (Inr img0)
      let ?img = "if im_mode img0 \<noteq> ''RGBA'' then convert img0 ''RGBA'' else img0"
      obtain fs2 evs r where s: "save_icons W ?img ios_icon_sizes fs1 = (fs2, evs, r)"
        by (cases "save_icons W ?img ios_icon_sizes fs1")
      from True m [unfolded None] Inr refl s generate_icons_loop [OF True m [unfolded None] Inr s]
      show ?thesis by (rule looped)
    qed
  qed
qed

lemma rgba_mode:
  "im_mode (if im_mode img0 \<noteq> ''RGBA'' then convert img0 ''RGBA'' else img0) = ''RGBA''"
  by (simp add: convert_def)

lemma square_table: "(n, sz) \<in> set ios_icon_sizes \<Longrightarrow> fst sz = snd sz"
  by (auto simp: ios_icon_sizes_def)

lemma generate_icons_saved_from_table:
  assumes "(p, im) \<in> set (saved (run_log (generate_icons W fs)))"
  shows "\<exists>n sz. (n, sz) \<in> set ios_icon_sizes \<and> p = path_join ios_appicon_dir n
           \<and> im_size im = sz \<and> im_mode im = ''RGBA''"
proof (cases W fs rule: generate_icons_cases)
  case missing
  with assms show ?thesis by (simp add: run_log_def)
next
  case (makedirs_raised fs1 e)
  with assms show ?thesis by (simp add: run_log_def)
next
  case (open_raised fs1 e)
  with assms show ?thesis by (simp add: run_log_def)
next
  case (looped fs1 img0 img fs2 evs r)
  have "saved (run_log (generate_icons W fs)) = saved evs"
    unfolding looped(6) by (simp add: run_log_def saved_append split: option.split)
  with assms have "(p, im) \<in> set (saved evs)" by simp
  from save_icons_saved_from_table [OF looped(5) this] obtain n sz where
    nsz: "(n, sz) \<in> set ios_icon_sizes" "p = path_join ios_appicon_dir n"
      "im = resize img sz LANCZOS"
    by blast
  have "im_mode img = ''RGBA''" unfolding looped(4) by (rule rgba_mode)
  with nsz show ?thesis
    by (intro exI [of _ n] exI [of _ sz]) (simp add: resize_def)
qed

lemma generate_icons_opened:
  "opened (run_log (generate_icons W fs)) =
     (if path_exists fs android_icon_path \<and> snd (makedirs fs ios_appicon_dir) = None
      then [android_icon_path] else [])"
proof (cases W fs rule: generate_icons_cases)
  case missing
  then show ?thesis by (simp add: run_log_def)
next
  case (makedirs_raised fs1 e)
  then show ?thesis by (simp add: run_log_def)
next
  case (open_raised fs1 e)
  then show ?thesis by (simp add: run_log_def)
next
  case (looped fs1 img0 img fs2 evs r)
  from save_icons_calls [OF looped(5)] have "opened evs = []" by simp
  then show ?thesis
    unfolding looped(6) using looped(1,2)
    by (simp add: run_log_def opened_append split: option.split)
qed

lemma open_after_makedirs:
  assumes "image_open fs android_icon_path = Inr img0" and "makedirs fs ios_appicon_dir = (fs1, r)"
  shows "path_exists fs android_icon_path" and "image_open fs1 android_icon_path = Inr img0"
proof -
  from assms(1) show ex: "path_exists fs android_icon_path"
    by (auto simp: image_open_def path_exists_def split: option.splits)
  from makedirs_keeps_source [OF ex assms(2)] assms(1)
  show "image_open fs1 android_icon_path = Inr img0" by (simp add: image_open_def)
qed

lemma generate_icons_converted:
  assumes "image_open fs android_icon_path = Inr img0"
    and "snd (makedirs fs ios_appicon_dir) = None"
  shows "converted (run_log (generate_icons W fs)) =
           (if im_mode img0 \<noteq> ''RGBA'' then [''RGBA''] else [])"
proof -
  obtain fs1 where m: "makedirs fs ios_appicon_dir = (fs1, None)"
    using assms(2) by (cases "makedirs fs ios_appicon_dir") auto
  note o = open_after_makedirs [OF assms(1) m]
  let ?img = "if im_mode img0 \<noteq> ''RGBA'' then convert img0 ''RGBA'' else img0"
  obtain fs2 evs r where s: "save_icons W ?img ios_icon_sizes fs1 = (fs2, evs, r)"
    by (cases "save_icons W ?img ios_icon_sizes fs1")
  from save_icons_calls [OF s] have "converted evs = []" by simp
  then show ?thesis
    unfolding generate_icons_loop [OF o(1) m o(2) s]
    by (simp add: run_log_def converted_append split: option.split)
qed

text \<open>
  In a run that opens the source, the saves of the loop are the saves of the run; and
  when nothing is in the way of a save, none raises.
\<close>

lemma generate_icons_loop_log:
  assumes "image_open fs android_icon_path = Inr img0"
    and "snd (makedirs fs ios_appicon_dir) = None"
  obtains fs1 fs2 evs r where
    "mkdir_chain fs (ancestors ios_appicon_dir @ [ios_appicon_dir]) = (fs1, None)"
    "save_icons W (if im_mode img0 \<noteq> ''RGBA'' then convert img0 ''RGBA'' else img0)
       ios_icon_sizes fs1 = (fs2, evs, r)"
    "run_outcome (generate_icons W fs) = Returned"
    "run_fs (generate_icons W fs) = fs2"
    "saved (run_log (generate_icons W fs)) = saved evs"
    "save_failures (run_log (generate_icons W fs)) = save_failures evs"
proof -
  obtain fs1 where m: "makedirs fs ios_appicon_dir = (fs1, None)"
    using assms(2) by (cases "makedirs fs ios_appicon_dir") auto
  note o = open_after_makedirs [OF assms(1) m]
  let ?img = "if im_mode img0 \<noteq> ''RGBA'' then convert img0 ''RGBA'' else img0"
  obtain fs2 evs r where s: "save_icons W ?img ios_icon_sizes fs1 = (fs2, evs, r)"
    by (cases "save_icons W ?img ios_icon_sizes fs1")
  note run = generate_icons_loop [OF o(1) m o(2) s]
  show thesis
  proof (rule that [of fs1 fs2 evs r])
    from m show "mkdir_chain fs (ancestors ios_appicon_dir @ [ios_appicon_dir]) = (fs1, None)"
      by (simp add: makedirs_def)
    show "save_icons W ?img ios_icon_sizes fs1 = (fs2, evs, r)" by (rule s)
    from run show "run_outcome (generate_icons W fs) = Returned" by (simp add: run_outcome_def)
    from run show "run_fs (generate_icons W fs) = fs2" by (simp add: run_fs_def)
    show "saved (run_log (generate_icons W fs)) = saved evs"
      unfolding run by (simp add: run_log_def saved_append split: option.split)
    show "save_failures (run_log (generate_icons W fs)) = save_failures evs"
      unfolding run by (simp add: run_log_def save_failures_append split: option.split)
  qed
qed

lemma generate_icons_unhindered:
  assumes "image_open fs android_icon_path = Inr img0"
    and "snd (makedirs fs ios_appicon_dir) = None"
    and "\<forall>p \<in> set output_paths. fs p \<noteq> Some Directory \<and> W p = None"
  shows "save_failures (run_log (generate_icons W fs)) = []"
proof -
  from assms(1,2) obtain fs1 fs2 evs r where
    chain: "mkdir_chain fs (ancestors ios_appicon_dir @ [ios_appicon_dir]) = (fs1, None)"
    and s: "save_icons W (if im_mode img0 \<noteq> ''RGBA'' then convert img0 ''RGBA'' else img0)
       ios_icon_sizes fs1 = (fs2, evs, r)"
    and f: "save_failures (run_log (generate_icons W fs)) = save_failures evs"
    by (rule generate_icons_loop_log)
  have dir: "fs1 ios_appicon_dir = Some Directory"
    by (rule mkdir_chain_made [OF chain]) simp
  have "\<forall>p \<in> set (paths_of ios_icon_sizes).
          fs1 p \<noteq> Some Directory \<and> dirname p = ios_appicon_dir \<and> W p = None"
  proof
    fix p assume p: "p \<in> set (paths_of ios_icon_sizes)"
    then have out: "p \<in> set output_paths" by (simp add: output_paths_def)
    with chain_not_output have "p \<notin> set (ancestors ios_appicon_dir @ [ios_appicon_dir])" by blast
    from mkdir_chain_frame [OF chain this] assms(3) out dirname_output [OF out]
    show "fs1 p \<noteq> Some Directory \<and> dirname p = ios_appicon_dir \<and> W p = None" by simp
  qed
  from save_icons_succeeds [OF this dir] obtain fa ea where
    "save_icons W (if im_mode img0 \<noteq> ''RGBA'' then convert img0 ''RGBA'' else img0)
       ios_icon_sizes fs1 = (fa, ea, None)"
    by blast
  with s have "r = None" by simp
  with save_icons_failures [OF s] f show ?thesis by simp
qed

text \<open>The run in which no save raises.\<close>

lemma generate_icons_complete:
  assumes "image_open fs android_icon_path = Inr img0"
    and "snd (makedirs fs ios_appicon_dir) = None"
    and "save_failures (run_log (generate_icons W fs)) = []"
  shows "run_outcome (generate_icons W fs) = Returned"
    and "saved (run_log (generate_icons W fs)) =
           map (\<lambda>(n, sz). (path_join ios_appicon_dir n, \<lparr>im_mode = ''RGBA'', im_size = sz\<rparr>))
             ios_icon_sizes"
    and "(n, sz) \<in> set ios_icon_sizes \<Longrightarrow>
           run_fs (generate_icons W fs) (path_join ios_appicon_dir n) =
             Some (ImageFile ''PNG'' \<lparr>im_mode = ''RGBA'', im_size = sz\<rparr>)"
proof -
  let ?img = "if im_mode img0 \<noteq> ''RGBA'' then convert img0 ''RGBA'' else img0"
  from assms(1,2) obtain fs1 fs2 evs r where
    s: "save_icons W ?img ios_icon_sizes fs1 = (fs2, evs, r)"
    and out: "run_outcome (generate_icons W fs) = Returned"
    and fin: "run_fs (generate_icons W fs) = fs2"
    and sv: "saved (run_log (generate_icons W fs)) = saved evs"
    and f: "save_failures (run_log (generate_icons W fs)) = save_failures evs"
    by (rule generate_icons_loop_log)
  from save_icons_failures [OF s] f assms(3) have "r = None" by simp
  with s have s': "save_icons W ?img ios_icon_sizes fs1 = (fs2, evs, None)" by simp
  have res: "resize ?img sz' LANCZOS = \<lparr>im_mode = ''RGBA'', im_size = sz'\<rparr>" for sz'
    by (simp add: resize_def convert_def)
  from out show "run_outcome (generate_icons W fs) = Returned" .
  from sv save_icons_saved_all [OF s'] res
  show all: "saved (run_log (generate_icons W fs)) =
           map (\<lambda>(n, sz). (path_join ios_appicon_dir n, \<lparr>im_mode = ''RGBA'', im_size = sz\<rparr>))
             ios_icon_sizes"
    by simp
  assume mem: "(n, sz) \<in> set ios_icon_sizes"
  with all sv have "(path_join ios_appicon_dir n, \<lparr>im_mode = ''RGBA'', im_size = sz\<rparr>) \<in> set (saved evs)"
    by force
  moreover from distinct_output_paths have "distinct (paths_of ios_icon_sizes)"
    by (simp add: output_paths_def)
  ultimately have "fs2 (path_join ios_appicon_dir n) = Some (ImageFile ''PNG'' \<lparr>im_mode = ''RGBA'', im_size = sz\<rparr>)"
    using save_icons_written [OF s'] by blast
  with fin show "run_fs (generate_icons W fs) (path_join ios_appicon_dir n) =
             Some (ImageFile ''PNG'' \<lparr>im_mode = ''RGBA'', im_size = sz\<rparr>)"
    by simp
qed

section \<open>The example worlds of the icon generator\<close>

lemma ancestors_source:
  "ancestors android_icon_path =
     [''AndroidOrigin'', ''AndroidOrigin/app'', ''AndroidOrigin/app/src'',
      ''AndroidOrigin/app/src/main'', ''AndroidOrigin/app/src/main/res'',
      ''AndroidOrigin/app/src/main/res/mipmap-xxxhdpi'']"
  by (simp add: ancestors_def android_icon_path_def)

lemma icon_file_alone_open:
  "image_open (file_under_dirs android_icon_path (ImageFile fmt im)) android_icon_path = Inr im"
  by (simp add: image_open_def file_under_dirs_def)

lemma icon_file_alone_absent:
  assumes "hd q = CHR ''B''"
  shows "file_under_dirs android_icon_path n q = None"
  using assms unfolding file_under_dirs_def ancestors_source
  by (auto simp: android_icon_path_def)

lemma icon_file_alone_makedirs:
  "snd (makedirs (file_under_dirs android_icon_path n) ios_appicon_dir) = None"
proof -
  have "\<forall>d \<in> set (ancestors ios_appicon_dir @ [ios_appicon_dir]).
          file_under_dirs android_icon_path n d = None"
    unfolding ancestors_dir by (simp add: icon_file_alone_absent ios_appicon_dir_def)
  then show ?thesis
    unfolding makedirs_def ancestors_dir by (simp add: ios_appicon_dir_def)
qed

lemma output_path_head:
  assumes "p \<in> set output_paths"
  shows "hd p = CHR ''B''"
proof -
  from assms obtain n sz where "(n, sz) \<in> set ios_icon_sizes" "p = path_join ios_appicon_dir n"
    by (auto simp: output_paths_def paths_of_def)
  with table_join(1) have "p = ios_appicon_dir @ ''/'' @ n" by simp
  then show ?thesis by (simp add: ios_appicon_dir_def)
qed

lemma source_only_open:
  "image_open fs_source_only android_icon_path = Inr \<lparr>im_mode = ''RGB'', im_size = (192, 192)\<rparr>"
  unfolding fs_source_only_def by (rule icon_file_alone_open)

lemma source_only_makedirs: "snd (makedirs fs_source_only ios_appicon_dir) = None"
  unfolding fs_source_only_def by (rule icon_file_alone_makedirs)

lemma source_only_free:
  "\<forall>p \<in> set output_paths. fs_source_only p \<noteq> Some Directory \<and> no_faults p = None"
  by (simp add: fs_source_only_def icon_file_alone_absent output_path_head no_faults_def)

lemma source_only_quiet:
  "save_failures (run_log (generate_icons no_faults fs_source_only)) = []"
  by (rule generate_icons_unhindered [OF source_only_open source_only_makedirs source_only_free])

lemma grey_alpha_open:
  "image_open fs_grey_alpha android_icon_path = Inr \<lparr>im_mode = ''LA'', im_size = (192, 192)\<rparr>"
  unfolding fs_grey_alpha_def by (rule icon_file_alone_open)

lemma grey_alpha_makedirs: "snd (makedirs fs_grey_alpha ios_appicon_dir) = None"
  unfolding fs_grey_alpha_def by (rule icon_file_alone_makedirs)

lemma read_only_loop:
  "\<exists>fs' evs x. save_icons read_only img ios_icon_sizes fs = (fs', evs, Some x) \<and> saved evs = []"
proof -
  obtain fa ra where s: "image_save read_only (resize img (40, 40) LANCZOS)
      (path_join ios_appicon_dir ''Icon-App-20x20@2x.png'') ''PNG'' fs = (fa, ra)"
    by (cases "image_save read_only (resize img (40, 40) LANCZOS)
      (path_join ios_appicon_dir ''Icon-App-20x20@2x.png'') ''PNG'' fs")
  then obtain x where x: "ra = Some x"
    by (auto simp: image_save_def read_only_def split: if_splits)
  have "save_icons read_only img ios_icon_sizes fs =
      (fa, [Image_resize img (40, 40),
            Image_save (resize img (40, 40) LANCZOS)
              (path_join ios_appicon_dir ''Icon-App-20x20@2x.png'') ''PNG'' (Some x)],
       Some x)"
    unfolding ios_icon_sizes_def by (rule save_icons_raise [OF s [unfolded x]])
  then show ?thesis by simp
qed

lemma source_only_read_only:
  "saved (run_log (generate_icons read_only fs_source_only)) = []"
proof -
  from source_only_open source_only_makedirs obtain fs1 fs2 evs r where
    s: "save_icons read_only
          (if im_mode \<lparr>im_mode = ''RGB'', im_size = (192, 192)\<rparr> \<noteq> ''RGBA''
           then convert \<lparr>im_mode = ''RGB'', im_size = (192, 192)\<rparr> ''RGBA''
           else \<lparr>im_mode = ''RGB'', im_size = (192, 192)\<rparr>)
          ios_icon_sizes fs1 = (fs2, evs, r)"
    and sv: "saved (run_log (generate_icons read_only fs_source_only)) = saved evs"
    by (rule generate_icons_loop_log)
  from read_only_loop obtain fa ea x where
    "save_icons read_only
          (if im_mode \<lparr>im_mode = ''RGB'', im_size = (192, 192)\<rparr> \<noteq> ''RGBA''
           then convert \<lparr>im_mode = ''RGB'', im_size = (192, 192)\<rparr> ''RGBA''
           else \<lparr>im_mode = ''RGB'', im_size = (192, 192)\<rparr>)
          ios_icon_sizes fs1 = (fa, ea, Some x)"
    "saved ea = []"
    by blast
  with s have "saved evs = []" by simp
  with sv show ?thesis by simp
qed

lemma blocked_exists: "path_exists fs_blocked android_icon_path"
  by (simp add: path_exists_def fs_blocked_def fs_source_only_def file_under_dirs_def
        path_join_def ios_appicon_dir_def android_icon_path_def)

lemma blocked_open:
  "image_open fs_blocked android_icon_path = Inr \<lparr>im_mode = ''RGB'', im_size = (192, 192)\<rparr>"
  by (simp add: image_open_def fs_blocked_def fs_source_only_def file_under_dirs_def
        path_join_def ios_appicon_dir_def android_icon_path_def)

lemma blocked_makedirs: "makedirs fs_blocked ios_appicon_dir = (fs_blocked, None)"
  unfolding makedirs_def
proof (rule mkdir_chain_all_dirs)
  show "\<forall>d \<in> set (ancestors ios_appicon_dir @ [ios_appicon_dir]). fs_blocked d = Some Directory"
    unfolding ancestors_dir
    by (simp add: fs_blocked_def path_join_def ios_appicon_dir_def)
qed

lemma blocked_loop:
  "save_icons W img ios_icon_sizes fs_blocked =
     (fs_blocked,
      [Image_resize img (40, 40),
       Image_save (resize img (40, 40) LANCZOS)
         (path_join ios_appicon_dir ''Icon-App-20x20@2x.png'') ''PNG'' (Some IsADirectoryError)],
      Some IsADirectoryError)"
proof -
  have "image_save W (resize img (40, 40) LANCZOS)
          (path_join ios_appicon_dir ''Icon-App-20x20@2x.png'') ''PNG'' fs_blocked =
        (fs_blocked, Some IsADirectoryError)"
    by (simp add: image_save_def fs_blocked_def)
  then show ?thesis
    unfolding ios_icon_sizes_def by (rule save_icons_raise)
qed

section \<open>The claims about the icon generator\<close>

text \<open>
  C1, as amended. On a source image that exists and can be opened, in a run in which
  the directory creation does not raise and no save raises, the run returns and writes
  exactly 22 files, one per entry of the table and each under its own path; the file
  under the name of an entry \<open>(filename, (w, h))\<close> is a PNG of width \<open>w\<close> and height
  \<open>h\<close> whose mode has an alpha channel, whatever the mode of the source.
\<close>

theorem C1_icons_written:
  assumes "image_open fs android_icon_path = Inr img0"
    and "snd (makedirs fs ios_appicon_dir) = None"
    and "save_failures (run_log (generate_icons W fs)) = []"
  shows "run_outcome (generate_icons W fs) = Returned
       \<and> length (saved (run_log (generate_icons W fs))) = 22
       \<and> map fst (saved (run_log (generate_icons W fs))) = output_paths
       \<and> distinct output_paths
       \<and> (\<forall>(filename, (w, h)) \<in> set ios_icon_sizes.
            \<exists>im. run_fs (generate_icons W fs) (path_join ios_appicon_dir filename) =
                    Some (ImageFile ''PNG'' im)
                \<and> im_size im = (w, h) \<and> has_alpha_channel (im_mode im))"
proof -
  note c = generate_icons_complete [OF assms]
  have "length (saved (run_log (generate_icons W fs))) = 22"
    unfolding c(2) by (simp add: length_ios_icon_sizes)
  moreover have "map fst (saved (run_log (generate_icons W fs))) = output_paths"
    unfolding c(2) by (simp add: output_paths_def paths_of_def case_prod_unfold comp_def)
  moreover have "\<forall>(filename, (w, h)) \<in> set ios_icon_sizes.
            \<exists>im. run_fs (generate_icons W fs) (path_join ios_appicon_dir filename) =
                    Some (ImageFile ''PNG'' im)
                \<and> im_size im = (w, h) \<and> has_alpha_channel (im_mode im)"
    using c(3) by (auto simp: has_alpha_channel_def)
  ultimately show ?thesis using c(1) distinct_output_paths by simp
qed

theorem C1_icons_written_witness:
  "image_open fs_source_only android_icon_path = Inr \<lparr>im_mode = ''RGB'', im_size = (192, 192)\<rparr>
   \<and> snd (makedirs fs_source_only ios_appicon_dir) = None
   \<and> save_failures (run_log (generate_icons no_faults fs_source_only)) = []
   \<and> run_outcome (generate_icons no_faults fs_source_only) = Returned
   \<and> length (saved (run_log (generate_icons no_faults fs_source_only))) = 22
   \<and> (\<exists>im. run_fs (generate_icons no_faults fs_source_only)
              (path_join ios_appicon_dir ''Icon-App-1024x1024@1x.png'') =
                Some (ImageFile ''PNG'' im)
            \<and> im_size im = (1024, 1024) \<and> has_alpha_channel (im_mode im))"
proof -
  note t = C1_icons_written [OF source_only_open source_only_makedirs source_only_quiet]
  have mem: "(''Icon-App-1024x1024@1x.png'', (1024, 1024)) \<in> set ios_icon_sizes"
    by (simp add: ios_icon_sizes_def)
  from t have "\<forall>(filename, (w, h)) \<in> set ios_icon_sizes.
            \<exists>im. run_fs (generate_icons no_faults fs_source_only)
                    (path_join ios_appicon_dir filename) = Some (ImageFile ''PNG'' im)
                \<and> im_size im = (w, h) \<and> has_alpha_channel (im_mode im)"
    by blast
  from bspec [OF this mem] t source_only_open source_only_makedirs source_only_quiet
  show ?thesis by simp
qed

text \<open>
  C1 as stated fails: the source image exists and opens, the first output path is a
  directory, the first \<open>save\<close> raises, the handler prints the error and the run
  returns with no file written. The same happens, with nothing in the way in the file
  system, when the output paths cannot be opened for writing.
\<close>

theorem C1_counterexample:
  "image_open fs_blocked android_icon_path = Inr \<lparr>im_mode = ''RGB'', im_size = (192, 192)\<rparr>
   \<and> run_outcome (generate_icons no_faults fs_blocked) = Returned
   \<and> saved (run_log (generate_icons no_faults fs_blocked)) = []
   \<and> length (saved (run_log (generate_icons no_faults fs_blocked))) \<noteq> 22
   \<and> image_open fs_source_only android_icon_path =
       Inr \<lparr>im_mode = ''RGB'', im_size = (192, 192)\<rparr>
   \<and> saved (run_log (generate_icons read_only fs_source_only)) = []"
proof -
  note run = generate_icons_loop [OF blocked_exists blocked_makedirs blocked_open blocked_loop,
      of no_faults]
  from run have "run_outcome (generate_icons no_faults fs_blocked) = Returned"
    by (simp add: run_outcome_def)
  moreover from run have "saved (run_log (generate_icons no_faults fs_blocked)) = []"
    by (simp add: run_log_def)
  ultimately show ?thesis
    using blocked_open source_only_open source_only_read_only by simp
qed

text \<open>
  C5. When the source image path does not exist, the run prints the diagnostic and
  returns: it creates no directory, opens, resizes and saves nothing, and leaves the
  file system as it was.
\<close>

theorem C5_missing_source_aborts:
  assumes "\<not> path_exists fs android_icon_path"
  shows "generate_icons W fs =
           (Returned, fs,
            [Os_path_exists android_icon_path, Print (Msg_icon_not_found android_icon_path)])
       \<and> saved (run_log (generate_icons W fs)) = []
       \<and> run_fs (generate_icons W fs) = fs"
  using generate_icons_missing [OF assms] by (simp add: run_log_def run_fs_def)

theorem C5_missing_source_aborts_witness:
  "\<not> path_exists Map.empty android_icon_path
   \<and> generate_icons no_faults Map.empty =
       (Returned, Map.empty,
        [Os_path_exists android_icon_path, Print (Msg_icon_not_found android_icon_path)])"
  using C5_missing_source_aborts [of Map.empty no_faults] by (simp add: path_exists_def)

text \<open>
  C6. A second run, on the file system the first run left, ends as the first did, with
  the same log and the same file system: the files written, with their sizes, are the
  same in both runs, and every output path holds the same file after both.
\<close>

theorem C6_second_run_identical:
  "generate_icons W (run_fs (generate_icons W fs)) = generate_icons W fs
   \<and> map (\<lambda>(p, im). (p, im_size im)) (saved (run_log (generate_icons W (run_fs (generate_icons W fs)))))
       = map (\<lambda>(p, im). (p, im_size im)) (saved (run_log (generate_icons W fs)))
   \<and> (\<forall>p \<in> set output_paths.
        run_fs (generate_icons W (run_fs (generate_icons W fs))) p = run_fs (generate_icons W fs) p)"
  by (simp add: generate_icons_again)

theorem C6_second_run_identical_witness:
  "generate_icons no_faults (run_fs (generate_icons no_faults fs_source_only)) = generate_icons no_faults fs_source_only
   \<and> length (saved (run_log (generate_icons no_faults (run_fs (generate_icons no_faults fs_source_only))))) = 22"
  using C6_second_run_identical [of no_faults fs_source_only]
    generate_icons_complete(2) [OF source_only_open source_only_makedirs source_only_quiet]
  by (simp add: length_ios_icon_sizes)

text \<open>
  C7, as amended. \<open>Image.open\<close> is called at most once, and exactly once in a run that
  gets past the existence check and the directory creation. The image is converted, to
  RGBA, if and only if its mode is not exactly RGBA: an image without an alpha channel is
  converted, and so is one whose alpha channel comes in another mode. Every image saved
  has mode RGBA.
\<close>

theorem C7_open_once_convert_unless_rgba:
  "opened (run_log (generate_icons W fs)) =
     (if path_exists fs android_icon_path \<and> snd (makedirs fs ios_appicon_dir) = None
      then [android_icon_path] else [])
   \<and> (\<forall>img0. image_open fs android_icon_path = Inr img0
          \<and> snd (makedirs fs ios_appicon_dir) = None \<longrightarrow>
        converted (run_log (generate_icons W fs)) =
          (if im_mode img0 \<noteq> ''RGBA'' then [''RGBA''] else [])
        \<and> (\<not> has_alpha_channel (im_mode img0) \<longrightarrow>
             converted (run_log (generate_icons W fs)) = [''RGBA'']))
   \<and> (\<forall>(p, im) \<in> set (saved (run_log (generate_icons W fs))). im_mode im = ''RGBA'')"
proof (intro conjI allI impI)
  show "opened (run_log (generate_icons W fs)) =
     (if path_exists fs android_icon_path \<and> snd (makedirs fs ios_appicon_dir) = None
      then [android_icon_path] else [])"
    by (rule generate_icons_opened)
next
  fix img0
  assume "image_open fs android_icon_path = Inr img0 \<and> snd (makedirs fs ios_appicon_dir) = None"
  then show "converted (run_log (generate_icons W fs)) =
          (if im_mode img0 \<noteq> ''RGBA'' then [''RGBA''] else [])"
    using generate_icons_converted by blast
next
  fix img0
  assume "image_open fs android_icon_path = Inr img0 \<and> snd (makedirs fs ios_appicon_dir) = None"
    and "\<not> has_alpha_channel (im_mode img0)"
  then show "converted (run_log (generate_icons W fs)) = [''RGBA'']"
    using generate_icons_converted [of fs img0 W] by (auto simp: has_alpha_channel_def)
next
  show "\<forall>(p, im) \<in> set (saved (run_log (generate_icons W fs))). im_mode im = ''RGBA''"
    using generate_icons_saved_from_table by blast
qed

theorem C7_open_once_convert_unless_rgba_witness:
  "opened (run_log (generate_icons no_faults fs_source_only)) = [android_icon_path]
   \<and> converted (run_log (generate_icons no_faults fs_source_only)) = [''RGBA'']
   \<and> \<not> has_alpha_channel ''RGB''"
  using C7_open_once_convert_unless_rgba [of no_faults fs_source_only]
    source_only_open source_only_makedirs
  by (auto simp: has_alpha_channel_def path_exists_def image_open_def split: option.splits)

text \<open>
  C7 as stated fails: a source image of mode LA has an alpha channel, and the run
  converts it all the same.
\<close>

theorem C7_counterexample:
  "image_open fs_grey_alpha android_icon_path = Inr \<lparr>im_mode = ''LA'', im_size = (192, 192)\<rparr>
   \<and> has_alpha_channel ''LA''
   \<and> converted (run_log (generate_icons no_faults fs_grey_alpha)) = [''RGBA'']"
  using generate_icons_converted [OF grey_alpha_open grey_alpha_makedirs] grey_alpha_open
  by (simp add: has_alpha_channel_def)

text \<open>
  C10. Every entry of the size table has its width equal to its height, and every image
  a run saves is square.
\<close>

theorem C10_icons_square:
  "(\<forall>(filename, (w, h)) \<in> set ios_icon_sizes. w = h)
   \<and> (\<forall>(p, im) \<in> set (saved (run_log (generate_icons W fs))).
        fst (im_size im) = snd (im_size im))"
proof
  show "\<forall>(filename, (w, h)) \<in> set ios_icon_sizes. w = h"
    using square_table by fastforce
  show "\<forall>(p, im) \<in> set (saved (run_log (generate_icons W fs))). fst (im_size im) = snd (im_size im)"
    using generate_icons_saved_from_table square_table by blast
qed

theorem C10_icons_square_witness:
  "length ios_icon_sizes = 22
   \<and> (''Icon-App-83.5x83.5@2x.png'', (167, 167)) \<in> set ios_icon_sizes
   \<and> (path_join ios_appicon_dir ''Icon-App-83.5x83.5@2x.png'',
       \<lparr>im_mode = ''RGBA'', im_size = (167, 167)\<rparr>)
        \<in> set (saved (run_log (generate_icons no_faults fs_source_only)))
   \<and> fst (im_size \<lparr>im_mode = ''RGBA'', im_size = (167, 167)\<rparr>)
        = snd (im_size \<lparr>im_mode = ''RGBA'', im_size = (167 :: nat, 167 :: nat)\<rparr>)"
proof -
  have mem: "(''Icon-App-83.5x83.5@2x.png'', (167, 167)) \<in> set ios_icon_sizes"
    by (simp add: ios_icon_sizes_def)
  then have sv: "(path_join ios_appicon_dir ''Icon-App-83.5x83.5@2x.png'',
       \<lparr>im_mode = ''RGBA'', im_size = (167, 167)\<rparr>)
        \<in> set (saved (run_log (generate_icons no_faults fs_source_only)))"
    unfolding generate_icons_complete(2) [OF source_only_open source_only_makedirs source_only_quiet]
    by force
  from C10_icons_square [of no_faults fs_source_only] sv
  have "fst (im_size \<lparr>im_mode = ''RGBA'', im_size = (167, 167)\<rparr>)
        = snd (im_size \<lparr>im_mode = ''RGBA'', im_size = (167 :: nat, 167 :: nat)\<rparr>)"
    by blast
  with mem sv length_ios_icon_sizes show ?thesis by blast
qed

section \<open>Runs of the exporter\<close>

lemma run_parts:
  "run_outcome (out, fs, log) = out"
  "run_fs (out, fs, log) = fs"
  "run_log (out, fs, log) = log"
  by (simp_all add: run_outcome_def run_fs_def run_log_def)

lemma convert_model_load_failed:
  assumes "jit_load L (fs model_path) = Inl e"
  shows "convert_model L fs =
           (Returned, fs,
            [Print Msg_convert_start, Jit_load model_path, Print (Msg_load_failed e),
             Print Msg_need_training_code, Print Msg_or_loadable_file])"
  using assms by (simp add: convert_model_def)

lemma convert_model_convert_failed:
  assumes "jit_load L (fs model_path) = Inr model"
    and "ct_convert L (case jit_trace L model example_input of Inr t \<Rightarrow> t | Inl x \<Rightarrow> model)
           convert_request = Inl e"
  shows "convert_model L fs =
           (Returned, fs,
            [Print Msg_convert_start, Jit_load model_path, Print Msg_loaded, Model_eval model,
             Jit_trace model example_input]
            @ (case jit_trace L model example_input of
                 Inr t \<Rightarrow> [Print Msg_trace_done]
               | Inl x \<Rightarrow> [Print Msg_already_torchscript])
            @ [Print Msg_converting,
               Ct_convert (case jit_trace L model example_input of Inr t \<Rightarrow> t | Inl x \<Rightarrow> model)
                 convert_request]
            @ failure_report e)"
  using assms by (simp add: convert_model_def Let_def)

lemma convert_model_converted:
  assumes "jit_load L (fs model_path) = Inr model"
    and "ct_convert L (case jit_trace L model example_input of Inr t \<Rightarrow> t | Inl x \<Rightarrow> model)
           convert_request = Inr mlmodel0"
  shows "convert_model L fs =
           (Returned,
            fst (mlmodel_save L (attach_metadata mlmodel0) output_path fs),
            [Print Msg_convert_start, Jit_load model_path, Print Msg_loaded, Model_eval model,
             Jit_trace model example_input]
            @ (case jit_trace L model example_input of
                 Inr t \<Rightarrow> [Print Msg_trace_done]
               | Inl x \<Rightarrow> [Print Msg_already_torchscript])
            @ [Print Msg_converting,
               Ct_convert (case jit_trace L model example_input of Inr t \<Rightarrow> t | Inl x \<Rightarrow> model)
                 convert_request,
               Mlmodel_save (attach_metadata mlmodel0) output_path
                 (snd (mlmodel_save L (attach_metadata mlmodel0) output_path fs))]
            @ (case snd (mlmodel_save L (attach_metadata mlmodel0) output_path fs) of
                 Some e \<Rightarrow> failure_report e
               | None \<Rightarrow> success_report))"
  using assms by (simp add: convert_model_def Let_def split: prod.split option.split)

text \<open>What \<open>save\<close> leaves: the package under directories, or what there was.\<close>

lemma ancestors_output:
  "ancestors output_path =
     [''BJTUselfServiceApple'', ''BJTUselfServiceApple/BJTUselfServiceApple'']"
  by (simp add: ancestors_def output_path_def)


lemma mlmodel_save_done:
  assumes "snd (mlmodel_save L m p fs) = None" and "p \<notin> set (ancestors p)"
  shows "fst (mlmodel_save L m p fs) p = Some (Package m)"
    and "d \<in> set (ancestors p) \<Longrightarrow> fst (mlmodel_save L m p fs) d = Some Directory"
proof -
  from assms(1) have e: "save_error L m p fs = None"
    by (simp add: mlmodel_save_def split: option.splits)
  obtain fs1 r where c: "mkdir_chain fs (ancestors p) = (fs1, r)"
    by (cases "mkdir_chain fs (ancestors p)")
  from assms(1) e c have r: "r = None" by (simp add: mlmodel_save_def split: option.splits)
  from e c r have res: "mlmodel_save L m p fs = (fs1(p \<mapsto> Package m), None)"
    by (simp add: mlmodel_save_def)
  from res show "fst (mlmodel_save L m p fs) p = Some (Package m)" by simp
  assume d: "d \<in> set (ancestors p)"
  with assms(2) have "d \<noteq> p" by blast
  with res mkdir_chain_made [OF c [unfolded r] d]
  show "fst (mlmodel_save L m p fs) d = Some Directory" by simp
qed

lemma mkdir_chain_free:
  "\<forall>d \<in> set ds. fs d = None \<or> fs d = Some Directory \<Longrightarrow> snd (mkdir_chain fs ds) = None"
  by (induction ds arbitrary: fs) (auto split: option.splits)

lemma mlmodel_save_free:
  assumes "save_error L m p fs = None"
    and "\<forall>d \<in> set (ancestors p). fs d = None \<or> fs d = Some Directory"
  shows "snd (mlmodel_save L m p fs) = None"
proof -
  obtain fs1 r where c: "mkdir_chain fs (ancestors p) = (fs1, r)"
    by (cases "mkdir_chain fs (ancestors p)")
  with mkdir_chain_free [OF assms(2)] have "r = None" by simp
  with assms(1) c show ?thesis by (simp add: mlmodel_save_def)
qed

lemma inspect_model_load_failed:
  assumes "jit_load L (fs model_path) = Inl e"
  shows "inspect_model L fs =
           (False, [Print Msg_inspecting, Jit_load model_path, Print (Msg_inspect_failed e)])"
  using assms by (simp add: inspect_model_def)

lemma inspect_model_ok:
  assumes "jit_load L (fs model_path) = Inr model"
    and "forward L model example_input = Inr (shape, dtype)"
  shows "inspect_model L fs =
           (True,
            [Print Msg_inspecting, Jit_load model_path, Print Msg_type_torchscript,
             Model_forward model example_input, Print (Msg_inspect_input_shape example_input),
             Print (Msg_inspect_output_shape shape), Print (Msg_inspect_output_dtype dtype)])"
  using assms by (simp add: inspect_model_def)

lemma exporter_main_load_failed:
  assumes "jit_load L (fs model_path) = Inl e"
  shows "exporter_main L fs =
           (Returned, fs,
            [Print Msg_rule, Print Msg_title, Print Msg_rule, Print Msg_inspecting,
             Jit_load model_path, Print (Msg_inspect_failed e), Print Msg_ensure_model])"
  using inspect_model_load_failed [of L fs, OF assms] by (simp add: exporter_main_def)

lemma exporter_main_inspected:
  assumes "jit_load L (fs model_path) = Inr model"
    and "forward L model example_input = Inr (shape, dtype)"
  shows "exporter_main L fs =
           (run_outcome (convert_model L fs), run_fs (convert_model L fs),
            [Print Msg_rule, Print Msg_title, Print Msg_rule, Print Msg_inspecting,
             Jit_load model_path, Print Msg_type_torchscript,
             Model_forward model example_input, Print (Msg_inspect_input_shape example_input),
             Print (Msg_inspect_output_shape shape), Print (Msg_inspect_output_dtype dtype),
             Print Msg_newline_rule]
            @ run_log (convert_model L fs))"
  using inspect_model_ok [of L fs, OF assms]
  by (simp add: exporter_main_def run_outcome_def run_fs_def run_log_def split: prod.split)

text \<open>Every run of \<open>convert_model\<close> returns, and writes at the output path or nowhere.\<close>

lemma convert_model_returns: "run_outcome (convert_model L fs) = Returned"
  by (simp add: convert_model_def run_outcome_def Let_def split: sum.split prod.split option.split)



section \<open>The metadata\<close>

lemma attach_metadata_fields:
  "author (attach_metadata m0) = author_text"
  "license (attach_metadata m0) = license_text"
  "short_description (attach_metadata m0) = short_description_text"
  "program (attach_metadata m0) = program m0"
  "map_of (output_description (attach_metadata m0)) ''logits'' = Some logits_description_second"
  "input_description (attach_metadata m0) = input_description m0"
  by (simp_all add: attach_metadata_def Let_def update_conv')

lemma logits_descriptions_differ: "logits_description_second \<noteq> logits_description_first"
proof
  assume "logits_description_second = logits_description_first"
  then have "length logits_description_second = length logits_description_first" by simp
  then show False
    by (simp add: logits_description_second_def logits_description_first_def ascii_def)
qed

lemma attach_metadata_distinct:
  assumes "distinct (map fst (output_description m0))"
  shows "distinct (map fst (output_description (attach_metadata m0)))"
  using assms by (simp add: attach_metadata_def Let_def distinct_update)

lemma first_description_gone:
  assumes "distinct (map fst (output_description m0))"
  shows "(''logits'', logits_description_first) \<notin> set (output_description (attach_metadata m0))"
proof
  assume "(''logits'', logits_description_first) \<in> set (output_description (attach_metadata m0))"
  with attach_metadata_distinct [OF assms]
  have "map_of (output_description (attach_metadata m0)) ''logits'' = Some logits_description_first"
    by simp
  with attach_metadata_fields(5) [of m0] logits_descriptions_differ show False by simp
qed

section \<open>The main block of the exporter\<close>

lemma exporter_main_cases:
  obtains (not_inspected) ev where
      "exporter_main L fs = (Returned, fs, ev)" "filter is_makedirs ev = []"
      "filter is_ct_convert ev = []" "filter is_mlmodel_save ev = []"
  | (inspected) ev where
      "exporter_main L fs =
         (run_outcome (convert_model L fs), run_fs (convert_model L fs),
          ev @ run_log (convert_model L fs))"
      "filter is_makedirs ev = []"
proof (cases "jit_load L (fs model_path)")
  case (Inl e)
  show ?thesis
    by (rule not_inspected [OF exporter_main_load_failed [of L fs, OF Inl]])
       (simp_all add: is_makedirs_def is_ct_convert_def is_mlmodel_save_def)
next
  case (Inr model)
  show ?thesis
  proof (cases "forward L model example_input")
    case (Inl e)
    with Inr have "exporter_main L fs =
        (Returned, fs,
         [Print Msg_rule, Print Msg_title, Print Msg_rule, Print Msg_inspecting,
          Jit_load model_path, Print Msg_type_torchscript, Model_forward model example_input,
          Print (Msg_inspect_failed e), Print Msg_ensure_model])"
      by (simp add: exporter_main_def inspect_model_def)
    then show ?thesis
      by (rule not_inspected)
         (simp_all add: is_makedirs_def is_ct_convert_def is_mlmodel_save_def)
  next
    case inr: (Inr out)
    obtain shape dtype where "out = (shape, dtype)" by (cases out)
    with inr have "forward L model example_input = Inr (shape, dtype)" by simp
    from exporter_main_inspected [of L fs, OF Inr this] show ?thesis
      by (rule inspected) (simp add: is_makedirs_def)
  qed
qed

lemma exporter_main_returns: "run_outcome (exporter_main L fs) = Returned"
proof (cases L fs rule: exporter_main_cases)
  case (not_inspected ev)
  then show ?thesis by (simp add: run_outcome_def)
next
  case (inspected ev)
  with convert_model_returns [of L fs] show ?thesis by (simp add: run_outcome_def)
qed



section \<open>Directory creation and frame of the icon generator\<close>




section \<open>The example worlds of the exporter\<close>

lemma ancestors_model:
  "ancestors model_path =
     [''AndroidOrigin'', ''AndroidOrigin/app'', ''AndroidOrigin/app/src'',
      ''AndroidOrigin/app/src/main'', ''AndroidOrigin/app/src/main/assets'']"
  by (simp add: ancestors_def model_path_def)

lemma fs_model_nodes:
  "fs_model model_path = Some (OtherFile 0)"
  "fs_model output_path = None"
  "\<forall>d \<in> set (ancestors output_path). fs_model d = None"
  unfolding fs_model_def file_under_dirs_def ancestors_model ancestors_output
  by (simp_all add: model_path_def output_path_def)

lemma fs_model_save:
  assumes "save_error L m output_path fs_model = None"
  shows "snd (mlmodel_save L m output_path fs_model) = None"
  using mlmodel_save_free [OF assms] fs_model_nodes(3) by blast

lemma lib_ok_run:
  "jit_load lib_ok (fs_model model_path) = Inr 5"
  "forward lib_ok 5 example_input = Inr ([1, 15, 8], ''float32'')"
  "ct_convert lib_ok (case jit_trace lib_ok 5 example_input of Inr t \<Rightarrow> t | Inl x \<Rightarrow> 5)
     convert_request = Inr fresh_mlmodel"
  "snd (mlmodel_save lib_ok (attach_metadata fresh_mlmodel) output_path fs_model) = None"
  by (simp_all add: lib_ok_def fs_model_nodes(1) fs_model_save)

lemma lib_unsupported_run:
  "jit_load lib_unsupported (fs_model model_path) = Inr 5"
  "forward lib_unsupported 5 example_input = Inr ([1, 15, 8], ''float32'')"
  "ct_convert lib_unsupported
     (case jit_trace lib_unsupported 5 example_input of Inr t \<Rightarrow> t | Inl x \<Rightarrow> 5)
     convert_request = Inl (LibraryError 1)"
  by (simp_all add: lib_unsupported_def lib_ok_def fs_model_nodes(1))

lemma lib_untraceable_run:
  "jit_load lib_untraceable (fs_model model_path) = Inr 5"
  "jit_trace lib_untraceable 5 example_input = Inl (LibraryError 2)"
  "ct_convert lib_untraceable
     (case jit_trace lib_untraceable 5 example_input of Inr t \<Rightarrow> t | Inl x \<Rightarrow> 5)
     convert_request = Inr fresh_mlmodel"
  "snd (mlmodel_save lib_untraceable (attach_metadata fresh_mlmodel) output_path fs_model) = None"
  by (simp_all add: lib_untraceable_def lib_ok_def fs_model_nodes(1) fs_model_save)

lemma lib_unloadable_run:
  "jit_load lib_unloadable (fs_model model_path) = Inl (LibraryError 3)"
  by (simp add: lib_unloadable_def lib_ok_def)

lemma output_path_not_above_itself: "output_path \<notin> set (ancestors output_path)"
  unfolding ancestors_output by (simp add: output_path_def)

lemma convert_model_saved:
  assumes "jit_load L (fs model_path) = Inr model"
    and "ct_convert L (case jit_trace L model example_input of Inr t \<Rightarrow> t | Inl x \<Rightarrow> model)
           convert_request = Inr mlmodel0"
    and "snd (mlmodel_save L (attach_metadata mlmodel0) output_path fs) = None"
  shows "run_fs (convert_model L fs) output_path = Some (Package (attach_metadata mlmodel0))"
    and "d \<in> set (ancestors output_path) \<Longrightarrow> run_fs (convert_model L fs) d = Some Directory"
  using convert_model_converted [of L fs, OF assms(1,2)]
    mlmodel_save_done [OF assms(3) output_path_not_above_itself]
  by (simp_all add: run_fs_def)

lemma convert_model_save_called:
  assumes "jit_load L (fs model_path) = Inr model"
    and "ct_convert L (case jit_trace L model example_input of Inr t \<Rightarrow> t | Inl x \<Rightarrow> model)
           convert_request = Inr mlmodel0"
  shows "filter is_mlmodel_save (run_log (convert_model L fs)) =
           [Mlmodel_save (attach_metadata mlmodel0) output_path
              (snd (mlmodel_save L (attach_metadata mlmodel0) output_path fs))]"
  using convert_model_converted [of L fs, OF assms]
  by (simp add: run_log_def is_mlmodel_save_def failure_report_def success_report_def
        split: sum.split option.split)

section \<open>The claims about the exporter\<close>

text \<open>
  C2, as amended. The exporter returns in every run: whatever fails, no exception
  leaves it uncaught. For a model artifact that loads, whose forward pass on an input
  of shape (1,3,42,130) gives an output of shape (1,15,8), and on which conversion and
  \<open>save\<close> do not raise, it leaves the converted package, with the program the
  converter produced, at the fixed output path.
\<close>

theorem C2_package_written:
  "run_outcome (exporter_main L fs) = Returned
   \<and> run_outcome (convert_model L fs) = Returned
   \<and> (\<forall>model dtype mlmodel0.
        jit_load L (fs model_path) = Inr model
        \<and> forward L model example_input = Inr ([1, 15, 8], dtype)
        \<and> ct_convert L (case jit_trace L model example_input of Inr t \<Rightarrow> t | Inl x \<Rightarrow> model)
            convert_request = Inr mlmodel0
        \<and> snd (mlmodel_save L (attach_metadata mlmodel0) output_path fs) = None \<longrightarrow>
        run_fs (exporter_main L fs) output_path = Some (Package (attach_metadata mlmodel0))
        \<and> program (attach_metadata mlmodel0) = program mlmodel0
        \<and> filter is_mlmodel_save (run_log (exporter_main L fs)) =
            [Mlmodel_save (attach_metadata mlmodel0) output_path None]
        \<and> Print Msg_convert_ok \<in> set (run_log (exporter_main L fs)))
   \<and> output_path = ''BJTUselfServiceApple/BJTUselfServiceApple/CaptchaModel.mlpackage''"
proof (intro conjI allI impI)
  show "run_outcome (exporter_main L fs) = Returned" by (rule exporter_main_returns)
  show "run_outcome (convert_model L fs) = Returned" by (rule convert_model_returns)
  show "output_path = ''BJTUselfServiceApple/BJTUselfServiceApple/CaptchaModel.mlpackage''"
    by (simp add: output_path_def)
next
  fix model dtype mlmodel0
  assume a: "jit_load L (fs model_path) = Inr model
        \<and> forward L model example_input = Inr ([1, 15, 8], dtype)
        \<and> ct_convert L (case jit_trace L model example_input of Inr t \<Rightarrow> t | Inl x \<Rightarrow> model)
            convert_request = Inr mlmodel0
        \<and> snd (mlmodel_save L (attach_metadata mlmodel0) output_path fs) = None"
  then have ld: "jit_load L (fs model_path) = Inr model"
    and fw: "forward L model example_input = Inr ([1, 15, 8], dtype)"
    and cv: "ct_convert L (case jit_trace L model example_input of Inr t \<Rightarrow> t | Inl x \<Rightarrow> model)
            convert_request = Inr mlmodel0"
    and sv: "snd (mlmodel_save L (attach_metadata mlmodel0) output_path fs) = None"
    by simp_all
  note m = exporter_main_inspected [of L fs, OF ld fw]
  note c = convert_model_converted [of L fs, OF ld cv]
  from m convert_model_saved(1) [of L fs, OF ld cv sv]
  show "run_fs (exporter_main L fs) output_path = Some (Package (attach_metadata mlmodel0))"
    by (simp add: run_parts)
  show "program (attach_metadata mlmodel0) = program mlmodel0"
    by (rule attach_metadata_fields)
  from m convert_model_save_called [of L fs, OF ld cv] sv
  show "filter is_mlmodel_save (run_log (exporter_main L fs)) =
            [Mlmodel_save (attach_metadata mlmodel0) output_path None]"
    by (simp add: run_parts is_mlmodel_save_def)
  from m c sv show "Print Msg_convert_ok \<in> set (run_log (exporter_main L fs))"
    by (simp add: run_log_def success_report_def)
qed

theorem C2_package_written_witness:
  "jit_load lib_ok (fs_model model_path) = Inr 5
   \<and> forward lib_ok 5 example_input = Inr ([1, 15, 8], ''float32'')
   \<and> snd (mlmodel_save lib_ok (attach_metadata fresh_mlmodel) output_path fs_model) = None
   \<and> run_outcome (exporter_main lib_ok fs_model) = Returned
   \<and> run_fs (exporter_main lib_ok fs_model) output_path =
       Some (Package (attach_metadata fresh_mlmodel))
   \<and> program (attach_metadata fresh_mlmodel) = 7"
proof -
  note t = C2_package_written [of lib_ok fs_model]
  note u = t [THEN conjunct2, THEN conjunct2, THEN conjunct1, rule_format,
      OF conjI [OF lib_ok_run(1) conjI [OF lib_ok_run(2) conjI [OF lib_ok_run(3) lib_ok_run(4)]]]]
  from t u lib_ok_run show ?thesis by (simp add: fresh_mlmodel_def)
qed

text \<open>
  C2 as stated fails: the artifact loads and its forward pass gives shape (1,15,8), the
  conversion raises, the handler prints the failure report, and nothing is at the
  output path.
\<close>

theorem C2_counterexample:
  "jit_load lib_unsupported (fs_model model_path) = Inr 5
   \<and> forward lib_unsupported 5 example_input = Inr ([1, 15, 8], ''float32'')
   \<and> run_outcome (exporter_main lib_unsupported fs_model) = Returned
   \<and> run_fs (exporter_main lib_unsupported fs_model) output_path = None
   \<and> filter is_mlmodel_save (run_log (exporter_main lib_unsupported fs_model)) = []"
proof -
  note m = exporter_main_inspected [of lib_unsupported fs_model, OF lib_unsupported_run(1,2)]
  note c = convert_model_convert_failed [of lib_unsupported fs_model, OF lib_unsupported_run(1,3)]
  have "fs_model output_path = None" by (rule fs_model_nodes)
  with m c have "run_fs (exporter_main lib_unsupported fs_model) output_path = None"
    by (simp add: run_fs_def)
  moreover from m c have "filter is_mlmodel_save (run_log (exporter_main lib_unsupported fs_model)) = []"
    by (simp add: run_log_def is_mlmodel_save_def failure_report_def split: sum.split)
  ultimately show ?thesis
    using exporter_main_returns [of lib_unsupported fs_model] lib_unsupported_run(1,2) by simp
qed

text \<open>
  C3. When the model artifact fails to load, \<open>convert_model\<close> prints its diagnostic
  and returns, and so does the script as a whole, which stops after the inspection; the
  conversion routine and \<open>save\<close> are not called, and the file system, the output path
  included, is as it was.
\<close>

theorem C3_load_failure_writes_nothing:
  assumes "jit_load L (fs model_path) = Inl e"
  shows "convert_model L fs =
           (Returned, fs,
            [Print Msg_convert_start, Jit_load model_path, Print (Msg_load_failed e),
             Print Msg_need_training_code, Print Msg_or_loadable_file])
       \<and> exporter_main L fs =
           (Returned, fs,
            [Print Msg_rule, Print Msg_title, Print Msg_rule, Print Msg_inspecting,
             Jit_load model_path, Print (Msg_inspect_failed e), Print Msg_ensure_model])
       \<and> filter is_ct_convert (run_log (convert_model L fs)) = []
       \<and> filter is_mlmodel_save (run_log (convert_model L fs)) = []
       \<and> filter is_ct_convert (run_log (exporter_main L fs)) = []
       \<and> filter is_mlmodel_save (run_log (exporter_main L fs)) = []
       \<and> run_fs (convert_model L fs) output_path = fs output_path
       \<and> run_fs (exporter_main L fs) output_path = fs output_path"
  using convert_model_load_failed [of L fs, OF assms] exporter_main_load_failed [of L fs, OF assms]
  by (simp add: run_log_def run_fs_def is_ct_convert_def is_mlmodel_save_def)

theorem C3_load_failure_writes_nothing_witness:
  "jit_load lib_unloadable (fs_model model_path) = Inl (LibraryError 3)
   \<and> run_log (convert_model lib_unloadable fs_model) =
       [Print Msg_convert_start, Jit_load model_path, Print (Msg_load_failed (LibraryError 3)),
        Print Msg_need_training_code, Print Msg_or_loadable_file]
   \<and> run_fs (exporter_main lib_unloadable fs_model) = fs_model"
  using C3_load_failure_writes_nothing [of lib_unloadable fs_model, OF lib_unloadable_run]
    lib_unloadable_run
  by (simp add: run_log_def run_fs_def)

text \<open>
  C4, as amended. A failure of the load is caught: the diagnostic is printed and
  \<open>convert_model\<close> returns after its one call of \<open>load\<close>, with no trace and no
  conversion. A failure of the conversion is caught: the report that lists three likely
  causes is printed and \<open>convert_model\<close> returns after its one call of \<open>convert\<close>,
  with no \<open>save\<close>. A failure of the trace is caught too, but the run goes on: a note
  is printed, \<open>trace\<close> is not called again, and the conversion is called, once, on the
  loaded model as it is.
\<close>

theorem C4_failures_caught_trace_goes_on:
  "(\<forall>e. jit_load L (fs model_path) = Inl e \<longrightarrow>
      run_outcome (convert_model L fs) = Returned
      \<and> run_log (convert_model L fs) =
          [Print Msg_convert_start, Jit_load model_path, Print (Msg_load_failed e),
           Print Msg_need_training_code, Print Msg_or_loadable_file])
   \<and> (\<forall>model e. jit_load L (fs model_path) = Inr model
        \<and> ct_convert L (case jit_trace L model example_input of Inr t \<Rightarrow> t | Inl x \<Rightarrow> model)
            convert_request = Inl e \<longrightarrow>
      run_outcome (convert_model L fs) = Returned
      \<and> run_fs (convert_model L fs) = fs
      \<and> (\<exists>evs. run_log (convert_model L fs) =
            evs @ [Print (Msg_convert_failed e), Print Msg_possible_causes,
                   Print Msg_cause_architecture, Print Msg_cause_io_definition,
                   Print Msg_cause_torch_version])
      \<and> filter is_jit_load (run_log (convert_model L fs)) = [Jit_load model_path]
      \<and> length (filter is_ct_convert (run_log (convert_model L fs))) = 1
      \<and> filter is_mlmodel_save (run_log (convert_model L fs)) = [])
   \<and> (\<forall>model e. jit_load L (fs model_path) = Inr model
        \<and> jit_trace L model example_input = Inl e \<longrightarrow>
      run_outcome (convert_model L fs) = Returned
      \<and> Print Msg_already_torchscript \<in> set (run_log (convert_model L fs))
      \<and> filter is_jit_trace (run_log (convert_model L fs)) = [Jit_trace model example_input]
      \<and> filter is_ct_convert (run_log (convert_model L fs)) = [Ct_convert model convert_request])"
proof (intro conjI allI impI)
  fix e
  assume "jit_load L (fs model_path) = Inl e"
  from convert_model_load_failed [of L fs, OF this]
  show "run_log (convert_model L fs) =
          [Print Msg_convert_start, Jit_load model_path, Print (Msg_load_failed e),
           Print Msg_need_training_code, Print Msg_or_loadable_file]"
    by (simp add: run_log_def)
next
  fix model e
  assume a: "jit_load L (fs model_path) = Inr model
        \<and> ct_convert L (case jit_trace L model example_input of Inr t \<Rightarrow> t | Inl x \<Rightarrow> model)
            convert_request = Inl e"
  note c = convert_model_convert_failed [of L fs, OF conjunct1 [OF a] conjunct2 [OF a]]
  from c show "run_fs (convert_model L fs) = fs" by (simp add: run_fs_def)
  from c show "\<exists>evs. run_log (convert_model L fs) =
            evs @ [Print (Msg_convert_failed e), Print Msg_possible_causes,
                   Print Msg_cause_architecture, Print Msg_cause_io_definition,
                   Print Msg_cause_torch_version]"
    unfolding failure_report_def run_log_def by (simp only: snd_conv append_assoc [symmetric]) blast
  from c show "filter is_jit_load (run_log (convert_model L fs)) = [Jit_load model_path]"
    by (simp add: run_log_def is_jit_load_def failure_report_def split: sum.split)
  from c show "length (filter is_ct_convert (run_log (convert_model L fs))) = 1"
    by (simp add: run_log_def is_ct_convert_def failure_report_def split: sum.split)
  from c show "filter is_mlmodel_save (run_log (convert_model L fs)) = []"
    by (simp add: run_log_def is_mlmodel_save_def failure_report_def split: sum.split)
next
  fix model e
  assume a: "jit_load L (fs model_path) = Inr model \<and> jit_trace L model example_input = Inl e"
  then have ld: "jit_load L (fs model_path) = Inr model"
    and tr: "jit_trace L model example_input = Inl e" by simp_all
  have log: "Print Msg_already_torchscript \<in> set (run_log (convert_model L fs))
      \<and> filter is_jit_trace (run_log (convert_model L fs)) = [Jit_trace model example_input]
      \<and> filter is_ct_convert (run_log (convert_model L fs)) = [Ct_convert model convert_request]"
  proof (cases "ct_convert L (case jit_trace L model example_input of Inr t \<Rightarrow> t | Inl x \<Rightarrow> model)
           convert_request")
    case (Inl x)
    from convert_model_convert_failed [of L fs, OF ld Inl] tr show ?thesis
      by (simp add: run_log_def is_jit_trace_def is_ct_convert_def failure_report_def)
  next
    case (Inr mlmodel0)
    from convert_model_converted [of L fs, OF ld Inr] tr show ?thesis
      by (simp add: run_log_def is_jit_trace_def is_ct_convert_def failure_report_def
            success_report_def split: option.split)
  qed
  from log show "Print Msg_already_torchscript \<in> set (run_log (convert_model L fs))" by simp
  from log show "filter is_jit_trace (run_log (convert_model L fs)) = [Jit_trace model example_input]"
    by simp
  from log show "filter is_ct_convert (run_log (convert_model L fs)) = [Ct_convert model convert_request]"
    by simp
qed (rule convert_model_returns)+

theorem C4_failures_caught_trace_goes_on_witness:
  "jit_load lib_unloadable (fs_model model_path) = Inl (LibraryError 3)
   \<and> run_log (convert_model lib_unloadable fs_model) =
       [Print Msg_convert_start, Jit_load model_path, Print (Msg_load_failed (LibraryError 3)),
        Print Msg_need_training_code, Print Msg_or_loadable_file]
   \<and> ct_convert lib_unsupported
       (case jit_trace lib_unsupported 5 example_input of Inr t \<Rightarrow> t | Inl x \<Rightarrow> 5)
       convert_request = Inl (LibraryError 1)
   \<and> run_fs (convert_model lib_unsupported fs_model) = fs_model
   \<and> jit_trace lib_untraceable 5 example_input = Inl (LibraryError 2)
   \<and> filter is_ct_convert (run_log (convert_model lib_untraceable fs_model)) =
       [Ct_convert 5 convert_request]"
proof -
  note a = C4_failures_caught_trace_goes_on [of lib_unloadable fs_model, THEN conjunct1,
      rule_format, OF lib_unloadable_run]
  note b = C4_failures_caught_trace_goes_on [of lib_unsupported fs_model, THEN conjunct2,
      THEN conjunct1, rule_format, OF conjI [OF lib_unsupported_run(1) lib_unsupported_run(3)]]
  note c = C4_failures_caught_trace_goes_on [of lib_untraceable fs_model, THEN conjunct2,
      THEN conjunct2, rule_format, OF conjI [OF lib_untraceable_run(1) lib_untraceable_run(2)]]
  from a b c lib_unloadable_run lib_unsupported_run(3) lib_untraceable_run(2)
  show ?thesis by simp
qed

text \<open>
  C4 as stated fails: the trace raises, and the run goes on to the conversion, on the
  loaded model, and writes the package.
\<close>

theorem C4_counterexample:
  "jit_load lib_untraceable (fs_model model_path) = Inr 5
   \<and> jit_trace lib_untraceable 5 example_input = Inl (LibraryError 2)
   \<and> filter is_ct_convert (run_log (convert_model lib_untraceable fs_model)) =
       [Ct_convert 5 convert_request]
   \<and> run_fs (convert_model lib_untraceable fs_model) output_path =
       Some (Package (attach_metadata fresh_mlmodel))"
proof -
  note c = convert_model_converted [of lib_untraceable fs_model, OF lib_untraceable_run(1,3)]
  from c lib_untraceable_run(2,4)
  have "filter is_ct_convert (run_log (convert_model lib_untraceable fs_model)) =
       [Ct_convert 5 convert_request]"
    by (simp add: run_log_def is_ct_convert_def success_report_def)
  moreover note convert_model_saved(1) [of lib_untraceable fs_model,
      OF lib_untraceable_run(1) lib_untraceable_run(3) lib_untraceable_run(4)]
  ultimately show ?thesis using lib_untraceable_run(1,2) by simp
qed

section \<open>The saved package\<close>

lemma attach_metadata_descriptions:
  "output_description (attach_metadata m0) =
     AList.update ''logits'' logits_description_second (output_description m0)"
  by (simp add: attach_metadata_def Let_def)






text \<open>
  C9. The two assignments to \<open>output_description["logits"]\<close> leave the second string
  under that key: the description list after the five assignments is the one the second
  assignment alone would give, the two strings differ, and, the keys being distinct as
  in a dictionary, the first string is not stored under \<open>logits\<close>. This is the
  description in the package a successful run saves.
\<close>

theorem C9_logits_description_is_second:
  "map_of (output_description (attach_metadata m0)) ''logits'' = Some logits_description_second
   \<and> output_description (attach_metadata m0) =
       AList.update ''logits'' logits_description_second (output_description m0)
   \<and> logits_description_second \<noteq> logits_description_first
   \<and> (distinct (map fst (output_description m0)) \<longrightarrow>
        (''logits'', logits_description_first) \<notin> set (output_description (attach_metadata m0)))
   \<and> (\<forall>model.
        jit_load L (fs model_path) = Inr model
        \<and> ct_convert L (case jit_trace L model example_input of Inr t \<Rightarrow> t | Inl x \<Rightarrow> model)
            convert_request = Inr m0
        \<and> snd (mlmodel_save L (attach_metadata m0) output_path fs) = None \<longrightarrow>
        run_fs (convert_model L fs) output_path = Some (Package (attach_metadata m0)))"
  using attach_metadata_fields(5) [of m0] attach_metadata_descriptions [of m0]
    logits_descriptions_differ first_description_gone [of m0]
    convert_model_saved(1) [of L fs _ m0]
  by blast

theorem C9_logits_description_is_second_witness:
  "output_description (attach_metadata fresh_mlmodel) = [(''logits'', logits_description_second)]
   \<and> distinct (map fst (output_description fresh_mlmodel))
   \<and> (''logits'', logits_description_first) \<notin> set (output_description (attach_metadata fresh_mlmodel))
   \<and> snd (mlmodel_save lib_ok (attach_metadata fresh_mlmodel) output_path fs_model) = None
   \<and> run_fs (convert_model lib_ok fs_model) output_path =
       Some (Package (attach_metadata fresh_mlmodel))"
proof -
  note t = C9_logits_description_is_second [of fresh_mlmodel lib_ok fs_model]
  have d: "distinct (map fst (output_description fresh_mlmodel))"
    by (simp add: fresh_mlmodel_def)
  from t have "output_description (attach_metadata fresh_mlmodel) =
       AList.update ''logits'' logits_description_second (output_description fresh_mlmodel)"
    by blast
  then have l: "output_description (attach_metadata fresh_mlmodel) =
       [(''logits'', logits_description_second)]"
    by (simp add: fresh_mlmodel_def)
  from t d have g: "(''logits'', logits_description_first) \<notin>
       set (output_description (attach_metadata fresh_mlmodel))"
    by blast
  from t have "\<forall>model.
        jit_load lib_ok (fs_model model_path) = Inr model
        \<and> ct_convert lib_ok (case jit_trace lib_ok model example_input of Inr t \<Rightarrow> t | Inl x \<Rightarrow> model)
            convert_request = Inr fresh_mlmodel
        \<and> snd (mlmodel_save lib_ok (attach_metadata fresh_mlmodel) output_path fs_model) = None \<longrightarrow>
        run_fs (convert_model lib_ok fs_model) output_path =
          Some (Package (attach_metadata fresh_mlmodel))"
    by blast
  from this [rule_format, OF conjI [OF lib_ok_run(1) conjI [OF lib_ok_run(3) lib_ok_run(4)]]]
    l d g lib_ok_run(4) show ?thesis by blast
qed

end
